theory Spec2Isabelle
  imports Complex_Main "HOL-Library.Monad_Syntax"
begin

section \<open>Python values and operators\<close>

text \<open>
  Amounts are Python floats in the source; they are modelled as reals, so rounding error
  of binary floating point is outside the model. A computation that can raise returns an
  \<open>option\<close>: \<open>None\<close> stands for the raised exception (\<open>ZeroDivisionError\<close>,
  \<open>IndexError\<close> or \<open>KeyError\<close>), which no function of the source catches.
\<close>

definition truediv :: "real \<Rightarrow> real \<Rightarrow> real option" where
  \<comment> \<open>\<open>a / b\<close>; raises \<open>ZeroDivisionError\<close> when \<open>b\<close> is zero.\<close>
  "truediv a b = (if b = 0 then None else Some (a / b))"

definition getitem :: "'a list \<Rightarrow> int \<Rightarrow> 'a option" where
  \<comment> \<open>\<open>xs[i]\<close>: an index below zero counts from the end; \<open>IndexError\<close> outside the list.\<close>
  "getitem xs i =
     (if 0 \<le> i \<and> i < int (length xs) then Some (xs ! nat i)
      else if i < 0 \<and> - int (length xs) \<le> i then Some (xs ! nat (int (length xs) + i))
      else None)"

definition round_half_even :: "real \<Rightarrow> int" where
  "round_half_even x =
     (let f = \<lfloor>x\<rfloor>; r = x - of_int f
      in if r < 1 / 2 then f else if 1 / 2 < r then f + 1 else if even f then f else f + 1)"

definition round1 :: "real \<Rightarrow> real" where
  \<comment> \<open>\<open>round(x, 1)\<close>: one decimal, ties to the even neighbour.\<close>
  "round1 x = of_int (round_half_even (x * 10)) / 10"

definition sql_sum :: "real list \<Rightarrow> real option" where
  \<comment> \<open>\<open>func.sum(...)\<close> with \<open>.scalar()\<close>: \<open>None\<close> (SQL NULL) when no row matches.\<close>
  "sql_sum xs = (if xs = [] then None else Some (sum_list xs))"

definition sql_avg :: "real list \<Rightarrow> real option" where
  \<comment> \<open>\<open>func.avg(...)\<close> with \<open>.scalar()\<close>: the mean of the matching rows, \<open>None\<close> when there are none.\<close>
  "sql_avg xs = (if xs = [] then None else Some (sum_list xs / real (length xs)))"

definition or_zero :: "real option \<Rightarrow> real" where
  \<comment> \<open>\<open>v or 0.0\<close> and \<open>float(v) if v else 0.0\<close>: \<open>None\<close> and \<open>0\<close> are both falsy.\<close>
  "or_zero v = (case v of None \<Rightarrow> 0 | Some x \<Rightarrow> if x = 0 then 0 else x)"

fun digits :: "nat \<Rightarrow> string" where
  "digits n = (if n < 10 then [''0123456789'' ! n] else digits (n div 10) @ [''0123456789'' ! (n mod 10)])"

definition str_int :: "int \<Rightarrow> string" where
  \<comment> \<open>\<open>str(i)\<close> of an integer, as an f-string field \<open>{i}\<close> prints it.\<close>
  "str_int i = (if i < 0 then CHR ''-'' # digits (nat (- i)) else digits (nat i))"

definition fmt_02d :: "int \<Rightarrow> string" where
  \<comment> \<open>the f-string field \<open>{i:02d}\<close>: zero padded to width two, a sign counted in the width.\<close>
  "fmt_02d i = (let s = str_int i in replicate (2 - length s) CHR ''0'' @ s)"

definition dict_set :: "('k \<times> 'v) list \<Rightarrow> 'k \<Rightarrow> 'v \<Rightarrow> ('k \<times> 'v) list" where
  \<comment> \<open>\<open>d[k] = v\<close> on a dictionary kept in insertion order: a present key keeps its place.\<close>
  "dict_set d k v =
     (if k \<in> fst ` set d then map (\<lambda>(k', v'). if k' = k then (k', v) else (k', v')) d
      else d @ [(k, v)])"

definition dict_get :: "('k \<times> 'v) list \<Rightarrow> 'k \<Rightarrow> 'v option" where
  \<comment> \<open>\<open>d[k]\<close>; raises \<open>KeyError\<close> for an absent key.\<close>
  "dict_get d k = map_of d k"

fun for_each :: "'a list \<Rightarrow> ('s \<Rightarrow> 'a \<Rightarrow> 's option) \<Rightarrow> 's \<Rightarrow> 's option" where
  \<comment> \<open>a \<open>for\<close> loop over \<open>xs\<close> whose body updates the loop state and may raise.\<close>
  "for_each [] body s = Some s"
| "for_each (x # xs) body s = (case body s x of None \<Rightarrow> None | Some s' \<Rightarrow> for_each xs body s')"

section \<open>Calendar dates\<close>

text \<open>
  \<open>datetime.date\<close> with the arithmetic the source uses: comparison, the difference of two
  dates in days, \<open>timedelta(days=n)\<close> and dateutil's \<open>relativedelta(months=n)\<close>. Dates are
  compared through their proleptic Gregorian ordinal, as \<open>date.toordinal\<close> computes it.
  The ledger holds valid dates of the years 1 to 9999, so no date constructor raises.
\<close>

record date =
  year :: int
  month :: int
  day :: int

definition is_leap :: "int \<Rightarrow> bool" where
  "is_leap y = (y mod 4 = 0 \<and> (y mod 100 \<noteq> 0 \<or> y mod 400 = 0))"

definition days_in_month :: "int \<Rightarrow> int \<Rightarrow> int" where
  "days_in_month y m =
     (if m = 2 \<and> is_leap y then 29
      else [0, 31, 28, 31, 30, 31, 30, 31, 31, 30, 31, 30, 31] ! nat m)"

definition days_before_year :: "int \<Rightarrow> int" where
  "days_before_year y = (let p = y - 1 in p * 365 + p div 4 - p div 100 + p div 400)"

definition days_before_month :: "int \<Rightarrow> int \<Rightarrow> int" where
  "days_before_month y m =
     [0, 0, 31, 59, 90, 120, 151, 181, 212, 243, 273, 304, 334] ! nat m
       + (if 2 < m \<and> is_leap y then 1 else 0)"

definition toordinal :: "date \<Rightarrow> int" where
  "toordinal d = days_before_year (year d) + days_before_month (year d) (month d) + day d"

definition valid_date :: "date \<Rightarrow> bool" where
  "valid_date d = (1 \<le> year d \<and> year d \<le> 9999 \<and> 1 \<le> month d \<and> month d \<le> 12
     \<and> 1 \<le> day d \<and> day d \<le> days_in_month (year d) (month d))"

definition days_between :: "date \<Rightarrow> date \<Rightarrow> int" where
  \<comment> \<open>\<open>(a - b).days\<close>\<close>
  "days_between a b = toordinal a - toordinal b"

definition date_le :: "date \<Rightarrow> date \<Rightarrow> bool" where
  \<comment> \<open>\<open>a <= b\<close>\<close>
  "date_le a b = (toordinal a \<le> toordinal b)"

definition date_lt :: "date \<Rightarrow> date \<Rightarrow> bool" where
  \<comment> \<open>\<open>a < b\<close>\<close>
  "date_lt a b = (toordinal a < toordinal b)"

definition prev_day :: "date \<Rightarrow> date" where
  "prev_day d =
     (if 1 < day d then d\<lparr>day := day d - 1\<rparr>
      else if 1 < month d
        then \<lparr>year = year d, month = month d - 1, day = days_in_month (year d) (month d - 1)\<rparr>
      else \<lparr>year = year d - 1, month = 12, day = 31\<rparr>)"

definition next_day :: "date \<Rightarrow> date" where
  "next_day d =
     (if day d < days_in_month (year d) (month d) then d\<lparr>day := day d + 1\<rparr>
      else if month d < 12 then \<lparr>year = year d, month = month d + 1, day = 1\<rparr>
      else \<lparr>year = year d + 1, month = 1, day = 1\<rparr>)"

definition sub_days :: "date \<Rightarrow> nat \<Rightarrow> date" where
  \<comment> \<open>\<open>d - timedelta(days=n)\<close>\<close>
  "sub_days d n = (prev_day ^^ n) d"

definition add_days :: "date \<Rightarrow> nat \<Rightarrow> date" where
  \<comment> \<open>\<open>d + timedelta(days=n)\<close>\<close>
  "add_days d n = (next_day ^^ n) d"

definition add_months :: "date \<Rightarrow> int \<Rightarrow> date" where
  \<comment> \<open>\<open>d + relativedelta(months=k)\<close>: the month moves, the day is cut to the month's length.\<close>
  "add_months d k =
     (let t = month d - 1 + k; y = year d + t div 12; m = t mod 12 + 1
      in \<lparr>year = y, month = m, day = min (day d) (days_in_month y m)\<rparr>)"

definition month_key :: "int \<Rightarrow> int \<Rightarrow> string" where
  \<comment> \<open>the f-string \<open>"{year}-{month:02d}"\<close>\<close>
  "month_key y m = str_int y @ ''-'' @ fmt_02d m"

definition isoformat :: "date \<Rightarrow> string" where
  \<comment> \<open>\<open>d.isoformat()\<close>: \<open>YYYY-MM-DD\<close>\<close>
  "isoformat d =
     (let y = str_int (year d)
      in replicate (4 - length y) CHR ''0'' @ y @ ''-'' @ fmt_02d (month d) @ ''-'' @ fmt_02d (day d))"

definition month_name :: "int \<Rightarrow> string" where
  \<comment> \<open>\<open>strftime('%B')\<close> and \<open>calendar.month_name\<close> in the C locale.\<close>
  "month_name m = ['''', ''January'', ''February'', ''March'', ''April'', ''May'', ''June'', ''July'',
     ''August'', ''September'', ''October'', ''November'', ''December''] ! nat m"

section \<open>The ledger: the rows of \<open>src.models.financial\<close>\<close>

text \<open>
  One record per mapped class, with the columns the analysis reads. Field names carry the
  table as a prefix, since several tables share column names. A relationship attribute
  (\<open>limit.category\<close>, \<open>transaction.category\<close>) is the referenced row, held in the record.
  \<open>Goal.created_at\<close> is a datetime of which only \<open>.date()\<close> is read, so it is kept as a date.
\<close>

datatype TransactionType = INCOME | EXPENSE

record Category =
  cat_id :: int
  cat_name :: string
  cat_color :: string

record Transaction =
  tx_id :: int
  tx_amount :: real
  tx_type :: TransactionType
  tx_date :: date
  tx_category_id :: int

record Goal =
  goal_id :: int
  goal_name :: string
  goal_description :: string
  goal_target_amount :: real
  goal_current_amount :: real
  goal_target_date :: date
  goal_created_at :: date
  goal_is_active :: bool

record SpendingLimit =
  sl_category_id :: int
  sl_monthly_limit :: real
  sl_month_year :: string
  sl_category :: Category

record RecurringTransaction =
  rt_id :: int
  rt_description :: string
  rt_amount :: real
  rt_type :: TransactionType
  rt_frequency :: string
  rt_start_date :: date
  rt_end_date :: "date option"
  rt_next_occurrence :: date
  rt_category :: Category
  rt_is_active :: bool

record ledger =
  categories :: "Category list"
  transactions :: "Transaction list"
  goals :: "Goal list"
  spending_limits :: "SpendingLimit list"
  recurring_transactions :: "RecurringTransaction list"

section \<open>Alerts (\<open>alert_system.py\<close>)\<close>

datatype AlertType =
    SPENDING_LIMIT_WARNING
  | SPENDING_LIMIT_EXCEEDED
  | GOAL_BEHIND_SCHEDULE
  | GOAL_DEADLINE_APPROACHING
  | LOW_BALANCE_PROJECTION
  | UNUSUAL_SPENDING
  | BILL_REMINDER
  | POSITIVE_TREND

datatype AlertPriority = LOW | MEDIUM | HIGH | CRITICAL

datatype pyval = PyFloat real | PyInt int | PyStr string

text \<open>
  \<open>title\<close> and \<open>message\<close> are f-strings over fixed Portuguese text; the model keeps the
  values they interpolate, in order, and leaves the fixed text and the number formatting
  out. \<open>data\<close> is the payload dictionary in insertion order. \<open>created_at\<close> is the clock
  reading \<open>datetime.utcnow()\<close> of the constructor, passed in as \<open>now\<close>.
\<close>

record Alert =
  alert_type :: AlertType
  priority :: AlertPriority
  title :: "pyval list"
  message :: "pyval list"
  data :: "(string \<times> pyval) list"
  action_url :: string
  created_at :: real
  is_read :: bool

definition new_Alert ::
  "real \<Rightarrow> AlertType \<Rightarrow> AlertPriority \<Rightarrow> pyval list \<Rightarrow> pyval list \<Rightarrow> (string \<times> pyval) list \<Rightarrow> string \<Rightarrow> Alert" where
  \<comment> \<open>\<open>Alert.__init__\<close>\<close>
  "new_Alert now ty pr ti msg dat url =
     \<lparr>alert_type = ty, priority = pr, title = ti, message = msg, data = dat,
      action_url = url, created_at = now, is_read = False\<rparr>"

record AlertSystem =
  current_date :: date
  alerts :: "Alert list"

definition mark_alert_as_read :: "AlertSystem \<Rightarrow> int \<Rightarrow> AlertSystem option" where
  "mark_alert_as_read self alert_index =
     (if 0 \<le> alert_index \<and> alert_index < int (length (alerts self))
      then do {
        a \<leftarrow> getitem (alerts self) alert_index;
        Some (self\<lparr>alerts := (alerts self)[nat alert_index := a\<lparr>is_read := True\<rparr>]\<rparr>)
      }
      else Some self)"

section \<open>The analyzer of \<open>financial_analysis.py\<close>\<close>

definition should_occur_in_month :: "RecurringTransaction \<Rightarrow> int \<Rightarrow> int \<Rightarrow> bool" where
  \<comment> \<open>\<open>_should_occur_in_month\<close>\<close>
  "should_occur_in_month recurring_transaction y m =
     (if rt_frequency recurring_transaction = ''monthly'' then True
      else if rt_frequency recurring_transaction = ''yearly''
        then month (rt_start_date recurring_transaction) = m
      else if rt_frequency recurring_transaction = ''weekly'' then True
      else False)"


definition join_group_sum ::
  "Category list \<Rightarrow> Transaction list \<Rightarrow> (Category \<Rightarrow> 'k) \<Rightarrow> (Transaction \<Rightarrow> bool) \<Rightarrow> ('k \<times> real) list" where
  \<comment> \<open>\<open>query(key, func.sum(Transaction.amount)).join(Transaction).filter(cond).group_by(key)\<close>:
      one row for each key with a matching transaction. SQL leaves the order of the rows open;
      the model takes the order of the category table.\<close>
  "join_group_sum cats txs key cond =
     (let rows = [(c, t). c \<leftarrow> cats, t \<leftarrow> txs, tx_category_id t = cat_id c \<and> cond t]
      in map (\<lambda>k. (k, sum_list [tx_amount t. (c, t) \<leftarrow> rows, key c = k]))
           (remdups (map (\<lambda>(c, t). key c) rows)))"

definition join_distinct_count ::
  "Category list \<Rightarrow> Transaction list \<Rightarrow> (Category \<Rightarrow> 'k) \<Rightarrow> (Transaction \<Rightarrow> bool) \<Rightarrow> nat" where
  \<comment> \<open>\<open>query(key).join(Transaction).filter(cond).distinct().count()\<close>\<close>
  "join_distinct_count cats txs key cond =
     length (remdups [key c. c \<leftarrow> cats, t \<leftarrow> txs, tx_category_id t = cat_id c \<and> cond t])"

definition limit_current_spent :: "date \<Rightarrow> ledger \<Rightarrow> SpendingLimit \<Rightarrow> real" where
  \<comment> \<open>the query \<open>current_spent\<close> that the three loops over the spending limits share:
      the category's expenses from the first of the month to the current date, \<open>or 0.0\<close>.\<close>
  "limit_current_spent cur db limit =
     (let start_of_month = \<lparr>year = year cur, month = month cur, day = 1\<rparr>
      in or_zero (sql_sum [tx_amount t. t \<leftarrow> transactions db,
           tx_category_id t = sl_category_id limit \<and> date_le start_of_month (tx_date t)
           \<and> date_le (tx_date t) cur \<and> tx_type t = EXPENSE]))"

record FinancialAnalyzer =
  fa_current_date :: date
  fa_current_month :: int
  fa_current_year :: int

definition new_FinancialAnalyzer :: "date \<Rightarrow> FinancialAnalyzer" where
  \<comment> \<open>\<open>FinancialAnalyzer.__init__\<close>, with \<open>date.today()\<close> passed in.\<close>
  "new_FinancialAnalyzer today =
     \<lparr>fa_current_date = today, fa_current_month = month today, fa_current_year = year today\<rparr>"

definition get_days_in_month :: "int \<Rightarrow> int \<Rightarrow> int" where
  \<comment> \<open>\<open>_get_days_in_month\<close>\<close>
  "get_days_in_month y m =
     (let next_month = (if m = 12 then \<lparr>year = y + 1, month = 1, day = 1\<rparr>
                        else \<lparr>year = y, month = m + 1, day = 1\<rparr>);
          last_day = sub_days next_month 1
      in day last_day)"

record month_summary =
  ms_period :: "date \<times> date"
  ms_total_income :: real
  ms_total_expenses :: real
  ms_expenses_by_category :: "(string \<times> real) list"
  ms_partial_balance :: real
  ms_days_in_month :: int
  ms_total_days_in_month :: int

definition get_current_month_summary :: "FinancialAnalyzer \<Rightarrow> ledger \<Rightarrow> month_summary" where
  \<comment> \<open>\<open>period\<close> is kept as the two dates the source formats into one string.\<close>
  "get_current_month_summary self db =
     (let start_of_month = \<lparr>year = fa_current_year self, month = fa_current_month self, day = 1\<rparr>;
          expenses_query = join_group_sum (categories db) (transactions db)
            (\<lambda>c. (cat_id c, cat_name c))
            (\<lambda>t. date_le start_of_month (tx_date t) \<and> date_le (tx_date t) (fa_current_date self)
                  \<and> tx_type t = EXPENSE);
          expenses_by_category = foldl (\<lambda>d ((i, n), total). dict_set d n total) [] expenses_query;
          total_expenses = sum_list (map snd expenses_by_category);
          income_query = sql_sum [tx_amount t. t \<leftarrow> transactions db,
            date_le start_of_month (tx_date t) \<and> date_le (tx_date t) (fa_current_date self)
            \<and> tx_type t = INCOME];
          total_income = or_zero income_query;
          partial_balance = total_income - total_expenses
      in \<lparr>ms_period = (start_of_month, fa_current_date self),
          ms_total_income = total_income,
          ms_total_expenses = total_expenses,
          ms_expenses_by_category = expenses_by_category,
          ms_partial_balance = partial_balance,
          ms_days_in_month = day (fa_current_date self),
          ms_total_days_in_month = get_days_in_month (fa_current_year self) (fa_current_month self)\<rparr>)"

record limit_status =
  ls_category_name :: string
  ls_monthly_limit :: real
  ls_current_spent :: real
  ls_remaining :: real
  ls_percentage_used :: real
  ls_is_over_limit :: bool

definition spending_limit_status :: "FinancialAnalyzer \<Rightarrow> ledger \<Rightarrow> SpendingLimit \<Rightarrow> limit_status option" where
  \<comment> \<open>the body of the loop of \<open>get_spending_limits_status\<close>\<close>
  "spending_limit_status self db limit =
     (let current_spent = limit_current_spent (fa_current_date self) db limit
      in do {
        percentage_used \<leftarrow>
          (if sl_monthly_limit limit > 0
           then do { q \<leftarrow> truediv current_spent (sl_monthly_limit limit); Some (q * 100) }
           else Some 0);
        let remaining = sl_monthly_limit limit - current_spent;
        Some \<lparr>ls_category_name = cat_name (sl_category limit),
              ls_monthly_limit = sl_monthly_limit limit,
              ls_current_spent = current_spent,
              ls_remaining = remaining,
              ls_percentage_used = percentage_used,
              ls_is_over_limit = (current_spent > sl_monthly_limit limit)\<rparr>
      })"

definition get_spending_limits_status :: "FinancialAnalyzer \<Rightarrow> ledger \<Rightarrow> limit_status list option" where
  "get_spending_limits_status self db =
     (let month_year = month_key (fa_current_year self) (fa_current_month self);
          limits = filter (\<lambda>l. sl_month_year l = month_year) (spending_limits db)
      in for_each limits
           (\<lambda>status_list limit. do {
              st \<leftarrow> spending_limit_status self db limit;
              Some (status_list @ [st]) })
           [])"

definition in_window :: "RecurringTransaction \<Rightarrow> TransactionType \<Rightarrow> date \<Rightarrow> bool" where
  \<comment> \<open>the filter of the two \<open>_get_recurring_..._for_month\<close> queries\<close>
  "in_window r ty target_date =
     (rt_is_active r \<and> rt_type r = ty \<and> date_le (rt_start_date r) target_date
      \<and> (case rt_end_date r of None \<Rightarrow> True | Some e \<Rightarrow> date_le target_date e))"

definition get_recurring_expenses_for_month :: "ledger \<Rightarrow> int \<Rightarrow> int \<Rightarrow> real" where
  \<comment> \<open>\<open>_get_recurring_expenses_for_month\<close>\<close>
  "get_recurring_expenses_for_month db y m =
     (let target_date = \<lparr>year = y, month = m, day = 1\<rparr>;
          recurring = filter (\<lambda>r. in_window r EXPENSE target_date) (recurring_transactions db)
      in foldl (\<lambda>total r. if should_occur_in_month r y m then total + rt_amount r else total)
           0 recurring)"

definition get_recurring_income_for_month :: "ledger \<Rightarrow> int \<Rightarrow> int \<Rightarrow> real" where
  \<comment> \<open>\<open>_get_recurring_income_for_month\<close>\<close>
  "get_recurring_income_for_month db y m =
     (let target_date = \<lparr>year = y, month = m, day = 1\<rparr>;
          recurring = filter (\<lambda>r. in_window r INCOME target_date) (recurring_transactions db)
      in foldl (\<lambda>total r. if should_occur_in_month r y m then total + rt_amount r else total)
           0 recurring)"

definition historical_data :: "FinancialAnalyzer \<Rightarrow> ledger \<Rightarrow> TransactionType \<Rightarrow> int \<Rightarrow> real list" where
  \<comment> \<open>the loop over the last three years that both historical averages run: the month's
      total of each year, kept when it is truthy.\<close>
  "historical_data self db ty target_month =
     concat (map (\<lambda>year_offset.
        let historical_year = fa_current_year self - year_offset;
            total = sql_sum [tx_amount t. t \<leftarrow> transactions db,
              year (tx_date t) = historical_year \<and> month (tx_date t) = target_month
              \<and> tx_type t = ty]
        in (case total of None \<Rightarrow> [] | Some v \<Rightarrow> if v = 0 then [] else [v]))
      [1, 2, 3])"

definition get_historical_average_expenses :: "FinancialAnalyzer \<Rightarrow> ledger \<Rightarrow> int \<Rightarrow> real option" where
  \<comment> \<open>\<open>_get_historical_average_expenses\<close>\<close>
  "get_historical_average_expenses self db target_month =
     (let hist = historical_data self db EXPENSE target_month
      in if hist \<noteq> [] then truediv (sum_list hist) (real (length hist)) else Some 0)"

definition get_historical_average_income :: "FinancialAnalyzer \<Rightarrow> ledger \<Rightarrow> int \<Rightarrow> real option" where
  \<comment> \<open>\<open>_get_historical_average_income\<close>\<close>
  "get_historical_average_income self db target_month =
     (let hist = historical_data self db INCOME target_month
      in if hist \<noteq> [] then truediv (sum_list hist) (real (length hist)) else Some 0)"

definition combine_projections :: "real \<Rightarrow> real \<Rightarrow> real" where
  \<comment> \<open>\<open>_combine_projections\<close>\<close>
  "combine_projections recurring historical =
     (if recurring > 0 then recurring + historical * 0.3 else historical)"

definition project_expenses_by_category :: "ledger \<Rightarrow> int \<Rightarrow> int \<Rightarrow> (string \<times> real) list" where
  \<comment> \<open>\<open>_project_expenses_by_category\<close>\<close>
  "project_expenses_by_category db y m =
     foldl (\<lambda>projections category.
        let historical_avg = sql_avg [tx_amount t. t \<leftarrow> transactions db,
              tx_category_id t = cat_id category \<and> tx_type t = EXPENSE \<and> month (tx_date t) = m]
        in dict_set projections (cat_name category) (or_zero historical_avg))
      [] (categories db)"

record expense_projection =
  ep_year :: int
  ep_month :: int
  ep_month_name :: string
  ep_recurring_expenses :: real
  ep_historical_average :: real
  ep_projected_total :: real
  ep_projected_by_category :: "(string \<times> real) list"

record income_projection =
  ip_year :: int
  ip_month :: int
  ip_month_name :: string
  ip_recurring_income :: real
  ip_historical_average :: real
  ip_projected_total :: real

definition expense_projection_for :: "FinancialAnalyzer \<Rightarrow> ledger \<Rightarrow> int \<Rightarrow> (string \<times> expense_projection) option" where
  \<comment> \<open>the body of the loop of \<open>project_future_expenses\<close>: the key and the entry of one month\<close>
  "expense_projection_for self db month_offset =
     (let target_date = add_months (fa_current_date self) month_offset;
          target_month = month target_date;
          target_year = year target_date;
          recurring_expenses = get_recurring_expenses_for_month db target_year target_month
      in do {
        historical_avg \<leftarrow> get_historical_average_expenses self db target_month;
        let projected_expenses = combine_projections recurring_expenses historical_avg;
        Some (month_key target_year target_month,
              \<lparr>ep_year = target_year, ep_month = target_month,
               ep_month_name = month_name (month target_date),
               ep_recurring_expenses = recurring_expenses,
               ep_historical_average = historical_avg,
               ep_projected_total = projected_expenses,
               ep_projected_by_category = project_expenses_by_category db target_year target_month\<rparr>)
      })"

definition project_future_expenses ::
  "FinancialAnalyzer \<Rightarrow> ledger \<Rightarrow> int \<Rightarrow> (string \<times> expense_projection) list option" where
  "project_future_expenses self db months_ahead =
     for_each [1..months_ahead]
       (\<lambda>projections month_offset. do {
          (k, v) \<leftarrow> expense_projection_for self db month_offset;
          Some (dict_set projections k v) })
       []"

definition income_projection_for :: "FinancialAnalyzer \<Rightarrow> ledger \<Rightarrow> int \<Rightarrow> (string \<times> income_projection) option" where
  \<comment> \<open>the body of the loop of \<open>project_future_income\<close>: the key and the entry of one month\<close>
  "income_projection_for self db month_offset =
     (let target_date = add_months (fa_current_date self) month_offset;
          target_month = month target_date;
          target_year = year target_date;
          recurring_income = get_recurring_income_for_month db target_year target_month
      in do {
        historical_avg_income \<leftarrow> get_historical_average_income self db target_month;
        let projected_income = max recurring_income historical_avg_income;
        Some (month_key target_year target_month,
              \<lparr>ip_year = target_year, ip_month = target_month,
               ip_month_name = month_name (month target_date),
               ip_recurring_income = recurring_income,
               ip_historical_average = historical_avg_income,
               ip_projected_total = projected_income\<rparr>)
      })"

definition project_future_income ::
  "FinancialAnalyzer \<Rightarrow> ledger \<Rightarrow> int \<Rightarrow> (string \<times> income_projection) list option" where
  "project_future_income self db months_ahead =
     for_each [1..months_ahead]
       (\<lambda>projections month_offset. do {
          (k, v) \<leftarrow> income_projection_for self db month_offset;
          Some (dict_set projections k v) })
       []"

record savings =
  sc_month :: string
  sc_year :: int
  sc_projected_income :: real
  sc_projected_expenses :: real
  sc_projected_savings :: real
  sc_savings_rate :: real

definition savings_entry :: "string \<Rightarrow> int \<Rightarrow> real \<Rightarrow> real \<Rightarrow> savings option" where
  \<comment> \<open>the dictionary one month of \<open>calculate_savings_capacity\<close> stores\<close>
  "savings_entry name y projected_income projected_expenses =
     (let monthly_savings = projected_income - projected_expenses
      in do {
        rate \<leftarrow> (if projected_income > 0
                 then do { q \<leftarrow> truediv monthly_savings projected_income; Some (q * 100) }
                 else Some 0);
        Some \<lparr>sc_month = name, sc_year = y,
              sc_projected_income = projected_income,
              sc_projected_expenses = projected_expenses,
              sc_projected_savings = monthly_savings,
              sc_savings_rate = rate\<rparr>
      })"

definition calculate_savings_capacity ::
  "FinancialAnalyzer \<Rightarrow> ledger \<Rightarrow> int \<Rightarrow> (string \<times> savings) list option" where
  "calculate_savings_capacity self db months_ahead = do {
     expense_projections \<leftarrow> project_future_expenses self db months_ahead;
     income_projections \<leftarrow> project_future_income self db months_ahead;
     for_each (map fst expense_projections)
       (\<lambda>savings_capacity mk. do {
          ip \<leftarrow> dict_get income_projections mk;
          ep \<leftarrow> dict_get expense_projections mk;
          e \<leftarrow> savings_entry (ep_month_name ep) (ep_year ep) (ip_projected_total ip) (ep_projected_total ep);
          Some (dict_set savings_capacity mk e) })
       []
   }"


record goal_analysis =
  ga_id :: int
  ga_name :: string
  ga_description :: string
  ga_target_amount :: real
  ga_current_amount :: real
  ga_amount_needed :: real
  ga_target_date :: string
  ga_days_remaining :: int
  ga_months_remaining :: real
  ga_monthly_savings_needed :: real
  ga_progress_percentage :: real
  ga_is_achievable :: bool
  ga_avg_monthly_savings_capacity :: real

definition analyze_goal :: "FinancialAnalyzer \<Rightarrow> ledger \<Rightarrow> Goal \<Rightarrow> goal_analysis option" where
  \<comment> \<open>the body of the loop of \<open>analyze_goals_progress\<close>\<close>
  "analyze_goal self db goal =
     (let days_remaining = days_between (goal_target_date goal) (fa_current_date self);
          months_remaining = max 1 (real_of_int days_remaining / 30.44);
          amount_needed = goal_target_amount goal - goal_current_amount goal
      in do {
        monthly_savings_needed \<leftarrow>
          (if months_remaining > 0 then truediv amount_needed months_remaining
           else Some amount_needed);
        savings_capacity \<leftarrow> calculate_savings_capacity self db 3;
        avg_monthly_savings \<leftarrow>
          truediv (sum_list (map (\<lambda>(k, s). sc_projected_savings s) savings_capacity))
            (real (length savings_capacity));
        let is_achievable = (monthly_savings_needed \<le> avg_monthly_savings);
        progress_percentage \<leftarrow>
          (if goal_target_amount goal > 0
           then do { q \<leftarrow> truediv (goal_current_amount goal) (goal_target_amount goal);
                     Some (q * 100) }
           else Some 0);
        Some \<lparr>ga_id = goal_id goal, ga_name = goal_name goal,
              ga_description = goal_description goal,
              ga_target_amount = goal_target_amount goal,
              ga_current_amount = goal_current_amount goal,
              ga_amount_needed = amount_needed,
              ga_target_date = isoformat (goal_target_date goal),
              ga_days_remaining = days_remaining,
              ga_months_remaining = round1 months_remaining,
              ga_monthly_savings_needed = monthly_savings_needed,
              ga_progress_percentage = progress_percentage,
              ga_is_achievable = is_achievable,
              ga_avg_monthly_savings_capacity = avg_monthly_savings\<rparr>
      })"

definition analyze_goals_progress :: "FinancialAnalyzer \<Rightarrow> ledger \<Rightarrow> goal_analysis list option" where
  "analyze_goals_progress self db =
     for_each (filter goal_is_active (goals db))
       (\<lambda>goals_analysis goal. do {
          g \<leftarrow> analyze_goal self db goal;
          Some (goals_analysis @ [g]) })
       []"

definition count_income_sources :: "FinancialAnalyzer \<Rightarrow> ledger \<Rightarrow> nat" where
  \<comment> \<open>\<open>_count_income_sources\<close>\<close>
  "count_income_sources self db =
     (let three_months_ago = add_months (fa_current_date self) (- 3)
      in join_distinct_count (categories db) (transactions db) cat_id
           (\<lambda>t. date_le three_months_ago (tx_date t) \<and> tx_type t = INCOME))"

datatype HealthLevel = Excelente | Boa | Regular | Ruim | Critica

definition get_health_level :: "real \<Rightarrow> HealthLevel" where
  \<comment> \<open>\<open>_get_health_level\<close>; the level names are the source's strings.\<close>
  "get_health_level score =
     (if score \<ge> 80 then Excelente
      else if score \<ge> 60 then Boa
      else if score \<ge> 40 then Regular
      else if score \<ge> 20 then Ruim
      else Critica)"

record score_factors =
  positive_balance :: real
  spending_discipline :: real
  savings_capacity :: real
  income_diversification :: real

definition sum_factors :: "score_factors \<Rightarrow> real" where
  \<comment> \<open>\<open>sum(score_factors.values())\<close>\<close>
  "sum_factors f =
     positive_balance f + spending_discipline f + savings_capacity f + income_diversification f"

datatype Recommendation =
    ReduceSpending | ReviewLimits | ImproveSavings | DiversifyIncome | Congratulations

definition get_health_recommendations :: "score_factors \<Rightarrow> Recommendation list" where
  \<comment> \<open>\<open>_get_health_recommendations\<close>; each sentence of the source is named by a constructor.\<close>
  "get_health_recommendations f =
     (let recommendations =
            (if positive_balance f < 15 then [ReduceSpending] else [])
          @ (if spending_discipline f < 15 then [ReviewLimits] else [])
          @ (if savings_capacity f < 10 then [ImproveSavings] else [])
          @ (if income_diversification f < 15 then [DiversifyIncome] else [])
      in if recommendations = [] then [Congratulations] else recommendations)"

record health_score =
  total_score :: real
  factors :: score_factors
  health_level :: HealthLevel
  recommendations :: "Recommendation list"

definition get_financial_health_score :: "FinancialAnalyzer \<Rightarrow> ledger \<Rightarrow> health_score option" where
  "get_financial_health_score self db = do {
     let current_summary = get_current_month_summary self db;
     spending_limits \<leftarrow> get_spending_limits_status self db;
     savings_capacity \<leftarrow> calculate_savings_capacity self db 1;
     let f_positive_balance =
       (if ms_partial_balance current_summary > 0 then 25
        else max 0 (25 + (ms_partial_balance current_summary / 1000) * 5));
     let f_spending_discipline =
       (if spending_limits \<noteq> []
        then (let over_limit_count = length (filter ls_is_over_limit spending_limits)
              in max 0 (25 - real over_limit_count * 10))
        else 15);
     f_savings_capacity \<leftarrow>
       (if savings_capacity \<noteq> []
        then do {
          first \<leftarrow> getitem (map snd savings_capacity) 0;
          let next_month_savings = sc_projected_savings first;
          Some (if next_month_savings > 0 then min 25 ((next_month_savings / 1000) * 5) else 0)
        }
        else Some 0);
     let income_sources = count_income_sources self db;
     let f_income_diversification = min 25 (real income_sources * 8);
     let score_factors = \<lparr>positive_balance = f_positive_balance,
                           spending_discipline = f_spending_discipline,
                           savings_capacity = f_savings_capacity,
                           income_diversification = f_income_diversification\<rparr>;
     let total = sum_factors score_factors;
     Some \<lparr>total_score = round1 total,
           factors = score_factors,
           health_level = get_health_level total,
           recommendations = get_health_recommendations score_factors\<rparr>
   }"


section \<open>The analyzer of \<open>financial_analysis_simple.py\<close>\<close>

text \<open>
  The second \<open>FinancialAnalyzer\<close> class holds the current date only, so its methods take
  the date as \<open>cur\<close>. A method whose name the first class has too carries the prefix
  \<open>simple\<close>. Its dictionaries have the keys of the first class's, and share the records.
\<close>

definition simple_get_current_month_summary :: "date \<Rightarrow> ledger \<Rightarrow> month_summary" where
  "simple_get_current_month_summary cur db =
     (let current_month = month cur;
          current_year = year cur;
          start_of_month = \<lparr>year = current_year, month = current_month, day = 1\<rparr>;
          total_income = or_zero (sql_sum [tx_amount t. t \<leftarrow> transactions db,
            date_le start_of_month (tx_date t) \<and> date_le (tx_date t) cur \<and> tx_type t = INCOME]);
          total_expenses = or_zero (sql_sum [tx_amount t. t \<leftarrow> transactions db,
            date_le start_of_month (tx_date t) \<and> date_le (tx_date t) cur \<and> tx_type t = EXPENSE]);
          category_expenses = join_group_sum (categories db) (transactions db) cat_name
            (\<lambda>t. date_le start_of_month (tx_date t) \<and> date_le (tx_date t) cur
                  \<and> tx_type t = EXPENSE);
          expenses_by_category =
            foldl (\<lambda>d (category_name, amount). dict_set d category_name (or_zero (Some amount)))
              [] category_expenses;
          partial_balance = total_income - total_expenses
      in \<lparr>ms_period = (start_of_month, cur),
          ms_total_income = total_income,
          ms_total_expenses = total_expenses,
          ms_expenses_by_category = expenses_by_category,
          ms_partial_balance = partial_balance,
          ms_days_in_month = day cur,
          ms_total_days_in_month = days_in_month current_year current_month\<rparr>)"

record simple_limit_status =
  sls_category_id :: int
  sls_category_name :: string
  sls_category :: "string \<times> string"
  sls_monthly_limit :: real
  sls_current_spent :: real
  sls_remaining :: real
  sls_percentage_used :: real

definition simple_spending_limit_status :: "date \<Rightarrow> ledger \<Rightarrow> SpendingLimit \<Rightarrow> simple_limit_status option" where
  \<comment> \<open>the body of the loop of \<open>get_spending_limits_status\<close> of the second class\<close>
  "simple_spending_limit_status cur db limit =
     (let current_spent = limit_current_spent cur db limit
      in do {
        percentage_used \<leftarrow>
          (if sl_monthly_limit limit > 0
           then do { q \<leftarrow> truediv current_spent (sl_monthly_limit limit); Some (q * 100) }
           else Some 0);
        Some \<lparr>sls_category_id = sl_category_id limit,
              sls_category_name = cat_name (sl_category limit),
              sls_category = (cat_name (sl_category limit), cat_color (sl_category limit)),
              sls_monthly_limit = sl_monthly_limit limit,
              sls_current_spent = current_spent,
              sls_remaining = sl_monthly_limit limit - current_spent,
              sls_percentage_used = percentage_used\<rparr>
      })"

definition simple_get_spending_limits_status :: "date \<Rightarrow> ledger \<Rightarrow> simple_limit_status list option" where
  "simple_get_spending_limits_status cur db =
     (let month_year = month_key (year cur) (month cur);
          limits = filter (\<lambda>l. sl_month_year l = month_year) (spending_limits db)
      in for_each limits
           (\<lambda>results limit. do {
              st \<leftarrow> simple_spending_limit_status cur db limit;
              Some (results @ [st]) })
           [])"

definition calculate_health_score :: "date \<Rightarrow> ledger \<Rightarrow> health_score option" where
  \<comment> \<open>The source's level has no fifth name here: below 40 it is \<open>Ruim\<close>. Its
      recommendations test other thresholds than the first class's.\<close>
  "calculate_health_score cur db = do {
     let current_month_data = simple_get_current_month_summary cur db;
     let f_positive_balance = (if ms_partial_balance current_month_data > 0 then 25 else 0);
     f_savings_capacity \<leftarrow>
       (if ms_total_income current_month_data > 0
        then do {
          savings_rate \<leftarrow> truediv (ms_partial_balance current_month_data)
                            (ms_total_income current_month_data);
          Some (if savings_rate \<ge> 0.2 then 30
                else if savings_rate \<ge> 0.1 then 20
                else if savings_rate > 0 then 10
                else 0)
        }
        else Some 0);
     limits_status \<leftarrow> simple_get_spending_limits_status cur db;
     f_spending_discipline \<leftarrow>
       (if limits_status \<noteq> []
        then do {
          let within_limits =
            length (filter (\<lambda>l. sls_current_spent l \<le> sls_monthly_limit l) limits_status);
          q \<leftarrow> truediv (real within_limits) (real (length limits_status));
          Some (q * 30)
        }
        else Some 15);
     let income_sources = join_distinct_count (categories db) (transactions db) cat_name
                            (\<lambda>t. tx_type t = INCOME);
     let f_income_diversification =
       (if income_sources \<ge> 3 then 15
        else if income_sources = 2 then 10
        else if income_sources = 1 then 5
        else 0);
     let score_factors = \<lparr>positive_balance = f_positive_balance,
                           spending_discipline = f_spending_discipline,
                           savings_capacity = f_savings_capacity,
                           income_diversification = f_income_diversification\<rparr>;
     let total = sum_factors score_factors;
     let level = (if total \<ge> 80 then Excelente
                  else if total \<ge> 60 then Boa
                  else if total \<ge> 40 then Regular
                  else Ruim);
     let recs =
            (if positive_balance score_factors = 0 then [ReduceSpending] else [])
          @ (if savings_capacity score_factors < 20 then [ImproveSavings] else [])
          @ (if spending_discipline score_factors < 20 then [ReviewLimits] else [])
          @ (if income_diversification score_factors < 10 then [DiversifyIncome] else []);
     Some \<lparr>total_score = total,
           factors = score_factors,
           health_level = level,
           recommendations = (if recs = [] then [Congratulations] else recs)\<rparr>
   }"

definition calculate_historical_income_average :: "date \<Rightarrow> ledger \<Rightarrow> real" where
  \<comment> \<open>\<open>_calculate_historical_income_average\<close>\<close>
  "calculate_historical_income_average cur db =
     (let three_months_ago = add_months cur (- 3)
      in or_zero (sql_avg [tx_amount t. t \<leftarrow> transactions db,
           date_le three_months_ago (tx_date t) \<and> date_le (tx_date t) cur \<and> tx_type t = INCOME]))"

definition calculate_historical_expense_average :: "date \<Rightarrow> ledger \<Rightarrow> real" where
  \<comment> \<open>\<open>_calculate_historical_expense_average\<close>\<close>
  "calculate_historical_expense_average cur db =
     (let three_months_ago = add_months cur (- 3)
      in or_zero (sql_avg [tx_amount t. t \<leftarrow> transactions db,
           date_le three_months_ago (tx_date t) \<and> date_le (tx_date t) cur \<and> tx_type t = EXPENSE]))"

definition calculate_recurring_income :: "ledger \<Rightarrow> date \<Rightarrow> real" where
  \<comment> \<open>\<open>_calculate_recurring_income\<close>\<close>
  "calculate_recurring_income db target_date =
     foldl (\<lambda>total r. total + rt_amount r) 0
       (filter (\<lambda>r. rt_is_active r \<and> rt_type r = INCOME) (recurring_transactions db))"

definition calculate_recurring_expenses :: "ledger \<Rightarrow> date \<Rightarrow> real" where
  \<comment> \<open>\<open>_calculate_recurring_expenses\<close>\<close>
  "calculate_recurring_expenses db target_date =
     foldl (\<lambda>total r. total + rt_amount r) 0
       (filter (\<lambda>r. rt_is_active r \<and> rt_type r = EXPENSE) (recurring_transactions db))"

definition calculate_projected_income :: "date \<Rightarrow> ledger \<Rightarrow> date \<Rightarrow> real" where
  \<comment> \<open>\<open>_calculate_projected_income\<close>\<close>
  "calculate_projected_income cur db target_date =
     (let historical_avg = calculate_historical_income_average cur db;
          recurring_income = calculate_recurring_income db target_date
      in max historical_avg recurring_income)"

definition calculate_projected_expenses :: "date \<Rightarrow> ledger \<Rightarrow> date \<Rightarrow> real" where
  \<comment> \<open>\<open>_calculate_projected_expenses\<close>\<close>
  "calculate_projected_expenses cur db target_date =
     (let historical_avg = calculate_historical_expense_average cur db;
          recurring_expenses = calculate_recurring_expenses db target_date
      in max historical_avg recurring_expenses)"


definition simple_calculate_savings_capacity :: "date \<Rightarrow> ledger \<Rightarrow> int \<Rightarrow> (string \<times> savings) list option" where
  "simple_calculate_savings_capacity cur db months =
     for_each [0..months - 1]
       (\<lambda>results i.
          let future_date = add_months cur (i + 1);
              mk = month_key (year future_date) (month future_date);
              projected_income = calculate_projected_income cur db future_date;
              projected_expenses = calculate_projected_expenses cur db future_date
          in do {
            e \<leftarrow> savings_entry (month_name (month future_date)) (year future_date)
                   projected_income projected_expenses;
            Some (dict_set results mk e) })
       []"



record goal_progress =
  gp_id :: int
  gp_name :: string
  gp_description :: string
  gp_target_amount :: real
  gp_current_amount :: real
  gp_target_date :: string
  gp_progress_percentage :: real
  gp_remaining_amount :: real
  gp_days_remaining :: int
  gp_months_remaining :: real
  gp_monthly_needed :: real

definition goal_progress_of :: "date \<Rightarrow> Goal \<Rightarrow> goal_progress option" where
  \<comment> \<open>the body of the loop of \<open>get_goals_progress\<close>\<close>
  "goal_progress_of cur goal = do {
     progress_percentage \<leftarrow>
       (if goal_target_amount goal > 0
        then do { q \<leftarrow> truediv (goal_current_amount goal) (goal_target_amount goal);
                  Some (q * 100) }
        else Some 0);
     let remaining_amount = goal_target_amount goal - goal_current_amount goal;
     let days_remaining = days_between (goal_target_date goal) cur;
     let months_remaining = max 0 (real_of_int days_remaining / 30.44);
     monthly_needed \<leftarrow>
       (if months_remaining > 0 then truediv remaining_amount months_remaining
        else Some remaining_amount);
     Some \<lparr>gp_id = goal_id goal, gp_name = goal_name goal,
           gp_description = goal_description goal,
           gp_target_amount = goal_target_amount goal,
           gp_current_amount = goal_current_amount goal,
           gp_target_date = isoformat (goal_target_date goal),
           gp_progress_percentage = progress_percentage,
           gp_remaining_amount = remaining_amount,
           gp_days_remaining = days_remaining,
           gp_months_remaining = months_remaining,
           gp_monthly_needed = monthly_needed\<rparr>
   }"

definition get_goals_progress :: "date \<Rightarrow> ledger \<Rightarrow> goal_progress list option" where
  "get_goals_progress cur db =
     for_each (filter goal_is_active (goals db))
       (\<lambda>results goal. do {
          g \<leftarrow> goal_progress_of cur goal;
          Some (results @ [g]) })
       []"


section \<open>The rules of the alert system (\<open>alert_system.py\<close>)\<close>

text \<open>
  Each \<open>_check_...\<close> method appends to \<open>self.alerts\<close>; the model returns the updated
  \<open>AlertSystem\<close>. \<open>now\<close> is the clock the \<open>Alert\<close> constructor reads and \<open>db\<close> the ledger
  behind \<open>db.session\<close>. The leading underscore of a method name is dropped.
\<close>

definition append_alert :: "AlertSystem \<Rightarrow> Alert \<Rightarrow> AlertSystem" where
  \<comment> \<open>\<open>self.alerts.append(alert)\<close>\<close>
  "append_alert self alert = self\<lparr>alerts := alerts self @ [alert]\<rparr>"

definition check_spending_limit :: "real \<Rightarrow> ledger \<Rightarrow> AlertSystem \<Rightarrow> SpendingLimit \<Rightarrow> AlertSystem option" where
  \<comment> \<open>the body of the loop of \<open>_check_spending_limits\<close>\<close>
  "check_spending_limit now db self limit =
     (let current_spent = limit_current_spent (current_date self) db limit
      in do {
        percentage_used \<leftarrow>
          (if sl_monthly_limit limit > 0
           then do { q \<leftarrow> truediv current_spent (sl_monthly_limit limit); Some (q * 100) }
           else Some 0);
        if current_spent > sl_monthly_limit limit
        then (let excess = current_spent - sl_monthly_limit limit
              in Some (append_alert self
                   (new_Alert now SPENDING_LIMIT_EXCEEDED HIGH
                      [PyStr (cat_name (sl_category limit))]
                      [PyFloat (sl_monthly_limit limit), PyStr (cat_name (sl_category limit)), PyFloat excess]
                      [(''category_id'', PyInt (sl_category_id limit)),
                       (''category_name'', PyStr (cat_name (sl_category limit))),
                       (''limit'', PyFloat (sl_monthly_limit limit)),
                       (''spent'', PyFloat current_spent),
                       (''excess'', PyFloat excess),
                       (''percentage'', PyFloat percentage_used)]
                      (''/transactions?category='' @ str_int (sl_category_id limit)))))
        else if percentage_used \<ge> 80
        then (let remaining = sl_monthly_limit limit - current_spent
              in Some (append_alert self
                   (new_Alert now SPENDING_LIMIT_WARNING MEDIUM
                      [PyStr (cat_name (sl_category limit))]
                      [PyFloat percentage_used, PyStr (cat_name (sl_category limit)), PyFloat remaining]
                      [(''category_id'', PyInt (sl_category_id limit)),
                       (''category_name'', PyStr (cat_name (sl_category limit))),
                       (''limit'', PyFloat (sl_monthly_limit limit)),
                       (''spent'', PyFloat current_spent),
                       (''remaining'', PyFloat remaining),
                       (''percentage'', PyFloat percentage_used)]
                      (''/transactions?category='' @ str_int (sl_category_id limit)))))
        else Some self
      })"

definition check_spending_limits :: "real \<Rightarrow> ledger \<Rightarrow> AlertSystem \<Rightarrow> AlertSystem option" where
  \<comment> \<open>\<open>_check_spending_limits\<close>\<close>
  "check_spending_limits now db self =
     (let current_month = month (current_date self);
          current_year = year (current_date self);
          month_year = month_key current_year current_month;
          limits = filter (\<lambda>l. sl_month_year l = month_year) (spending_limits db)
      in for_each limits (check_spending_limit now db) self)"

definition calculate_total_months :: "Goal \<Rightarrow> real" where
  \<comment> \<open>\<open>_calculate_total_months\<close>\<close>
  "calculate_total_months goal =
     (let total_days = days_between (goal_target_date goal) (goal_created_at goal)
      in max 1 (real_of_int total_days / 30.44))"

definition check_goal :: "real \<Rightarrow> AlertSystem \<Rightarrow> Goal \<Rightarrow> AlertSystem option" where
  \<comment> \<open>the body of the loop of \<open>_check_goals_progress\<close>\<close>
  "check_goal now self goal =
     (let days_remaining = days_between (goal_target_date goal) (current_date self);
          months_remaining = max 0 (real_of_int days_remaining / 30.44)
      in do {
        self1 \<leftarrow>
          (if 0 < days_remaining \<and> days_remaining \<le> 30
           then do {
             progress_percentage \<leftarrow>
               (if goal_target_amount goal > 0
                then do { q \<leftarrow> truediv (goal_current_amount goal) (goal_target_amount goal);
                          Some (q * 100) }
                else Some 0);
             Some (if progress_percentage < 90
                   then append_alert self
                     (new_Alert now GOAL_DEADLINE_APPROACHING HIGH
                        [PyStr (goal_name goal)]
                        [PyStr (goal_name goal), PyInt days_remaining, PyFloat progress_percentage]
                        [(''goal_id'', PyInt (goal_id goal)),
                         (''goal_name'', PyStr (goal_name goal)),
                         (''target_amount'', PyFloat (goal_target_amount goal)),
                         (''current_amount'', PyFloat (goal_current_amount goal)),
                         (''progress_percentage'', PyFloat progress_percentage),
                         (''days_remaining'', PyInt days_remaining)]
                        ''/goals'')
                   else self)
           }
           else Some self);
        if months_remaining > 0
        then do {
          q \<leftarrow> truediv months_remaining (calculate_total_months goal);
          let ideal_progress = 1 - q;
          actual_progress \<leftarrow>
            (if goal_target_amount goal > 0
             then truediv (goal_current_amount goal) (goal_target_amount goal)
             else Some 0);
          if actual_progress < ideal_progress - 0.1
          then do {
            let amount_needed = goal_target_amount goal - goal_current_amount goal;
            monthly_needed \<leftarrow>
              (if months_remaining > 0 then truediv amount_needed months_remaining
               else Some amount_needed);
            Some (append_alert self1
              (new_Alert now GOAL_BEHIND_SCHEDULE MEDIUM
                 [PyStr (goal_name goal)]
                 [PyStr (goal_name goal), PyFloat monthly_needed]
                 [(''goal_id'', PyInt (goal_id goal)),
                  (''goal_name'', PyStr (goal_name goal)),
                  (''ideal_progress'', PyFloat (ideal_progress * 100)),
                  (''actual_progress'', PyFloat (actual_progress * 100)),
                  (''monthly_needed'', PyFloat monthly_needed),
                  (''months_remaining'', PyFloat months_remaining)]
                 ''/goals''))
          }
          else Some self1
        }
        else Some self1
      })"

definition check_goals_progress :: "real \<Rightarrow> ledger \<Rightarrow> AlertSystem \<Rightarrow> AlertSystem option" where
  \<comment> \<open>\<open>_check_goals_progress\<close>\<close>
  "check_goals_progress now db self =
     for_each (filter goal_is_active (goals db)) (check_goal now) self"

definition low_balance_alert :: "real \<Rightarrow> savings \<Rightarrow> Alert" where
  \<comment> \<open>the alert \<open>_check_balance_projections\<close> builds for a month of negative savings\<close>
  "low_balance_alert now d =
     new_Alert now LOW_BALANCE_PROJECTION HIGH
       []
       [PyStr (sc_month d), PyInt (sc_year d), PyFloat \<bar>sc_projected_savings d\<bar>]
       [(''month'', PyStr (sc_month d)),
        (''year'', PyInt (sc_year d)),
        (''projected_income'', PyFloat (sc_projected_income d)),
        (''projected_expenses'', PyFloat (sc_projected_expenses d)),
        (''projected_deficit'', PyFloat \<bar>sc_projected_savings d\<bar>)]
       ''/projections''"

fun balance_loop :: "real \<Rightarrow> AlertSystem \<Rightarrow> (string \<times> savings) list \<Rightarrow> AlertSystem" where
  \<comment> \<open>the loop of \<open>_check_balance_projections\<close> over \<open>savings_capacity.items()\<close>, with its \<open>break\<close>\<close>
  "balance_loop now self [] = self"
| "balance_loop now self ((mk, d) # rest) =
     (if sc_projected_savings d < 0 then append_alert self (low_balance_alert now d)
      else balance_loop now self rest)"

definition check_balance_projections :: "date \<Rightarrow> real \<Rightarrow> ledger \<Rightarrow> AlertSystem \<Rightarrow> AlertSystem option" where
  \<comment> \<open>\<open>_check_balance_projections\<close>; the analyzer it constructs reads \<open>date.today()\<close>, passed
      in as \<open>today\<close>.\<close>
  "check_balance_projections today now db self = do {
     let analyzer = new_FinancialAnalyzer today;
     savings_capacity \<leftarrow> calculate_savings_capacity analyzer db 3;
     Some (balance_loop now self savings_capacity)
   }"

definition recent_expenses_of :: "date \<Rightarrow> ledger \<Rightarrow> real" where
  \<comment> \<open>the query \<open>recent_expenses\<close> of \<open>_check_unusual_spending\<close>\<close>
  "recent_expenses_of cur db =
     (let week_ago = sub_days cur 7
      in or_zero (sql_sum [tx_amount t. t \<leftarrow> transactions db,
           date_le week_ago (tx_date t) \<and> date_le (tx_date t) cur \<and> tx_type t = EXPENSE]))"

definition historical_weekly_avg_of :: "date \<Rightarrow> ledger \<Rightarrow> real" where
  \<comment> \<open>\<open>historical_weekly_avg\<close> of \<open>_check_unusual_spending\<close>, after \<open>*= 7\<close>\<close>
  "historical_weekly_avg_of cur db =
     (let week_ago = sub_days cur 7;
          three_months_ago = add_months cur (- 3)
      in or_zero (sql_avg [tx_amount t. t \<leftarrow> transactions db,
           date_le three_months_ago (tx_date t) \<and> date_lt (tx_date t) week_ago
           \<and> tx_type t = EXPENSE]) * 7)"

definition check_unusual_spending :: "real \<Rightarrow> ledger \<Rightarrow> AlertSystem \<Rightarrow> AlertSystem option" where
  \<comment> \<open>\<open>_check_unusual_spending\<close>\<close>
  "check_unusual_spending now db self =
     (let recent_expenses = recent_expenses_of (current_date self) db;
          historical_weekly_avg = historical_weekly_avg_of (current_date self) db
      in if recent_expenses > historical_weekly_avg * 1.5 \<and> historical_weekly_avg > 0
         then do {
           let excess = recent_expenses - historical_weekly_avg;
           q \<leftarrow> truediv recent_expenses historical_weekly_avg;
           Some (append_alert self
             (new_Alert now UNUSUAL_SPENDING MEDIUM
                []
                [PyFloat recent_expenses, PyFloat excess]
                [(''recent_expenses'', PyFloat recent_expenses),
                 (''historical_average'', PyFloat historical_weekly_avg),
                 (''excess'', PyFloat excess),
                 (''percentage_increase'', PyFloat ((q - 1) * 100))]
                ''/transactions''))
         }
         else Some self)"

definition bill_reminder :: "real \<Rightarrow> date \<Rightarrow> RecurringTransaction \<Rightarrow> Alert" where
  \<comment> \<open>the alert of one recurring expense in \<open>_check_bill_reminders\<close>\<close>
  "bill_reminder now cur r =
     (let days_until = days_between (rt_next_occurrence r) cur
      in new_Alert now BILL_REMINDER LOW
           [PyStr (rt_description r)]
           [PyStr (rt_description r), PyFloat (rt_amount r), PyInt days_until]
           [(''transaction_id'', PyInt (rt_id r)),
            (''description'', PyStr (rt_description r)),
            (''amount'', PyFloat (rt_amount r)),
            (''due_date'', PyStr (isoformat (rt_next_occurrence r))),
            (''days_until'', PyInt days_until),
            (''category'', PyStr (cat_name (rt_category r)))]
           ''/transactions'')"

definition check_bill_reminders :: "real \<Rightarrow> ledger \<Rightarrow> AlertSystem \<Rightarrow> AlertSystem" where
  \<comment> \<open>\<open>_check_bill_reminders\<close>\<close>
  "check_bill_reminders now db self =
     (let next_week = add_days (current_date self) 7;
          due = filter (\<lambda>r. rt_is_active r \<and> rt_type r = EXPENSE
                  \<and> date_le (rt_next_occurrence r) next_week
                  \<and> date_le (current_date self) (rt_next_occurrence r))
                (recurring_transactions db)
      in foldl (\<lambda>s r. append_alert s (bill_reminder now (current_date self) r)) self due)"

definition get_month_income :: "ledger \<Rightarrow> int \<Rightarrow> int \<Rightarrow> date \<Rightarrow> date \<Rightarrow> real" where
  \<comment> \<open>\<open>_get_month_income\<close>\<close>
  "get_month_income db y m start_date end_date =
     or_zero (sql_sum [tx_amount t. t \<leftarrow> transactions db,
       date_le start_date (tx_date t) \<and> date_le (tx_date t) end_date \<and> tx_type t = INCOME])"

definition get_month_expenses :: "ledger \<Rightarrow> int \<Rightarrow> int \<Rightarrow> date \<Rightarrow> date \<Rightarrow> real" where
  \<comment> \<open>\<open>_get_month_expenses\<close>\<close>
  "get_month_expenses db y m start_date end_date =
     or_zero (sql_sum [tx_amount t. t \<leftarrow> transactions db,
       date_le start_date (tx_date t) \<and> date_le (tx_date t) end_date \<and> tx_type t = EXPENSE])"

definition check_positive_trends :: "real \<Rightarrow> ledger \<Rightarrow> AlertSystem \<Rightarrow> AlertSystem option" where
  \<comment> \<open>\<open>_check_positive_trends\<close>\<close>
  "check_positive_trends now db self =
     (let cur = current_date self;
          current_month = month cur;
          current_year = year cur;
          start_of_month = \<lparr>year = current_year, month = current_month, day = 1\<rparr>;
          current_month_income = get_month_income db current_year current_month start_of_month cur;
          current_month_expenses = get_month_expenses db current_year current_month start_of_month cur;
          current_savings = current_month_income - current_month_expenses;
          prev_month = (if current_month = 1 then 12 else current_month - 1);
          prev_year = (if current_month = 1 then current_year - 1 else current_year);
          days_in_current_month = day cur;
          prev_month_start = \<lparr>year = prev_year, month = prev_month, day = 1\<rparr>;
          prev_month_end = \<lparr>year = prev_year, month = prev_month, day = min days_in_current_month 28\<rparr>;
          prev_month_income = get_month_income db prev_year prev_month prev_month_start prev_month_end;
          prev_month_expenses = get_month_expenses db prev_year prev_month prev_month_start prev_month_end;
          prev_savings = prev_month_income - prev_month_expenses
      in if current_savings > prev_savings \<and> prev_savings > 0
         then do {
           let improvement = current_savings - prev_savings;
           improvement_percentage \<leftarrow>
             (if prev_savings > 0
              then do { q \<leftarrow> truediv current_savings prev_savings; Some ((q - 1) * 100) }
              else Some 0);
           Some (append_alert self
             (new_Alert now POSITIVE_TREND LOW
                []
                [PyFloat improvement]
                [(''current_savings'', PyFloat current_savings),
                 (''previous_savings'', PyFloat prev_savings),
                 (''improvement'', PyFloat improvement),
                 (''improvement_percentage'', PyFloat improvement_percentage)]
                ''/dashboard''))
         }
         else Some self)"

definition generate_all_alerts :: "date \<Rightarrow> real \<Rightarrow> ledger \<Rightarrow> AlertSystem \<Rightarrow> AlertSystem option" where
  \<comment> \<open>The list the method returns is \<open>alerts\<close> of the state returned here.\<close>
  "generate_all_alerts today now db self = do {
     let s0 = self\<lparr>alerts := []\<rparr>;
     s1 \<leftarrow> check_spending_limits now db s0;
     s2 \<leftarrow> check_goals_progress now db s1;
     s3 \<leftarrow> check_balance_projections today now db s2;
     s4 \<leftarrow> check_unusual_spending now db s3;
     let s5 = check_bill_reminders now db s4;
     check_positive_trends now db s5
   }"

definition get_alerts_by_priority :: "AlertSystem \<Rightarrow> AlertPriority \<Rightarrow> Alert list" where
  "get_alerts_by_priority self p = filter (\<lambda>alert. priority alert = p) (alerts self)"

definition get_unread_alerts_count :: "AlertSystem \<Rightarrow> nat" where
  "get_unread_alerts_count self = length (filter (\<lambda>alert. \<not> is_read alert) (alerts self))"

record by_priority =
  critical :: nat
  high :: nat
  medium :: nat
  low :: nat

record alerts_summary =
  total :: nat
  unread :: nat
  by_priority :: by_priority
  summary_alerts :: "Alert list"

definition get_alerts_summary :: "AlertSystem \<Rightarrow> alerts_summary" where
  \<comment> \<open>\<open>to_dict\<close> copies an alert field by field; the alert stands for its dictionary.\<close>
  "get_alerts_summary self =
     \<lparr>total = length (alerts self),
      unread = get_unread_alerts_count self,
      by_priority =
        \<lparr>critical = length (get_alerts_by_priority self CRITICAL),
         high = length (get_alerts_by_priority self HIGH),
         medium = length (get_alerts_by_priority self MEDIUM),
         low = length (get_alerts_by_priority self LOW)\<rparr>,
      summary_alerts = alerts self\<rparr>"


section \<open>Notions used in the proofs\<close>

definition other_rule_alert :: "Alert \<Rightarrow> bool" where
  \<comment> \<open>what every rule but the balance projection appends: no low balance alert, and a
      priority below critical\<close>
  "other_rule_alert a = (alert_type a \<noteq> LOW_BALANCE_PROJECTION \<and> priority a \<in> {LOW, MEDIUM, HIGH})"

definition first_deficit :: "real \<Rightarrow> savings \<Rightarrow> savings \<Rightarrow> savings \<Rightarrow> Alert list" where
  \<comment> \<open>the alert of the first of three months with negative savings, if there is one\<close>
  "first_deficit now e1 e2 e3 =
     (if sc_projected_savings e1 < 0 then [low_balance_alert now e1]
      else if sc_projected_savings e2 < 0 then [low_balance_alert now e2]
      else if sc_projected_savings e3 < 0 then [low_balance_alert now e3]
      else [])"

(*AUX*)

section \<open>Example ledgers\<close>

text \<open>Concrete rows and states, on which the theorems below are evaluated.\<close>

definition food :: Category where
  "food = \<lparr>cat_id = 1, cat_name = ''Food'', cat_color = ''#007bff''\<rparr>"

definition empty_ledger :: ledger where
  "empty_ledger = \<lparr>categories = [], transactions = [], goals = [], spending_limits = [],
     recurring_transactions = []\<rparr>"

definition insurance :: RecurringTransaction where
  \<comment> \<open>a yearly expense that started on 2024-03-15 and has no end\<close>
  "insurance = \<lparr>rt_id = 1, rt_description = ''Insurance'', rt_amount = 1200, rt_type = EXPENSE,
     rt_frequency = ''yearly'', rt_start_date = \<lparr>year = 2024, month = 3, day = 15\<rparr>,
     rt_end_date = None, rt_next_occurrence = \<lparr>year = 2025, month = 3, day = 15\<rparr>,
     rt_category = food, rt_is_active = True\<rparr>"

definition two_alerts :: AlertSystem where
  "two_alerts = \<lparr>current_date = \<lparr>year = 2025, month = 1, day = 15\<rparr>,
     alerts = [new_Alert 0 UNUSUAL_SPENDING MEDIUM [] [] [] ''/transactions'',
               new_Alert 1 POSITIVE_TREND LOW [] [] [] ''/dashboard'']\<rparr>"

definition jan15 :: date where
  "jan15 = \<lparr>year = 2025, month = 1, day = 15\<rparr>"

definition fresh :: AlertSystem where
  \<comment> \<open>an alert system constructed on 2025-01-15\<close>
  "fresh = \<lparr>current_date = jan15, alerts = []\<rparr>"




definition trip :: "real \<Rightarrow> real \<Rightarrow> date \<Rightarrow> Goal" where
  \<comment> \<open>an active goal created on 2024-04-10, with its target amount, current amount and
      target date\<close>
  "trip target current due = \<lparr>goal_id = 1, goal_name = ''Trip'', goal_description = '''',
     goal_target_amount = target, goal_current_amount = current, goal_target_date = due,
     goal_created_at = \<lparr>year = 2024, month = 4, day = 10\<rparr>, goal_is_active = True\<rparr>"

definition feb4 :: date where
  "feb4 = \<lparr>year = 2025, month = 2, day = 4\<rparr>"



definition deficit_ledger :: ledger where
  \<comment> \<open>a monthly salary of 100, a yearly insurance of 1200 due in March and a yearly tax of
      500 due in April; no transactions yet\<close>
  "deficit_ledger = \<lparr>categories = [food], transactions = [], goals = [], spending_limits = [],
     recurring_transactions =
       [\<lparr>rt_id = 2, rt_description = ''Salary'', rt_amount = 100, rt_type = INCOME,
         rt_frequency = ''monthly'', rt_start_date = \<lparr>year = 2024, month = 1, day = 1\<rparr>,
         rt_end_date = None, rt_next_occurrence = \<lparr>year = 2025, month = 2, day = 1\<rparr>,
         rt_category = food, rt_is_active = True\<rparr>,
        insurance,
        \<lparr>rt_id = 3, rt_description = ''Tax'', rt_amount = 500, rt_type = EXPENSE,
         rt_frequency = ''yearly'', rt_start_date = \<lparr>year = 2024, month = 4, day = 1\<rparr>,
         rt_end_date = None, rt_next_occurrence = \<lparr>year = 2025, month = 4, day = 1\<rparr>,
         rt_category = food, rt_is_active = True\<rparr>]\<rparr>"

definition march_deficit :: savings where
  "march_deficit = \<lparr>sc_month = ''March'', sc_year = 2025, sc_projected_income = 100,
     sc_projected_expenses = 1200, sc_projected_savings = - 1100, sc_savings_rate = - 1100\<rparr>"

(*EXAMPLES*)

section \<open>Properties\<close>

subsection \<open>Python operators\<close>

lemma truediv_Some: "b \<noteq> 0 \<Longrightarrow> truediv a b = Some (a / b)"
  by (simp add: truediv_def)

lemma getitem_in_range: "0 \<le> i \<Longrightarrow> i < int (length xs) \<Longrightarrow> getitem xs i = Some (xs ! nat i)"
  by (simp add: getitem_def)

lemma toordinal_eval:
  "toordinal \<lparr>year = y, month = m, day = d\<rparr> = days_before_year y + days_before_month y m + d"
  by (simp add: toordinal_def)

lemma for_each_total:
  "(\<And>s x. x \<in> set xs \<Longrightarrow> \<exists>s'. body s x = Some s') \<Longrightarrow> \<exists>s'. for_each xs body s = Some s'"
proof (induction xs arbitrary: s)
  case Nil
  show ?case by simp
next
  case (Cons x xs)
  from Cons.prems [of x s] obtain s1 where s1: "body s x = Some s1" by auto
  from Cons.IH [of s1] Cons.prems obtain s2 where "for_each xs body s1 = Some s2" by auto
  with s1 show ?case by simp
qed

lemma for_each_invariant:
  assumes step: "\<And>s x. x \<in> set xs \<Longrightarrow> P s \<Longrightarrow> \<exists>s'. body s x = Some s' \<and> P s'"
    and init: "P s"
  shows "\<exists>s'. for_each xs body s = Some s' \<and> P s'"
  using assms
proof (induction xs arbitrary: s)
  case Nil
  then show ?case by simp
next
  case (Cons x xs)
  from Cons.prems(1) [of x s] Cons.prems(2) obtain s1 where s1: "body s x = Some s1" "P s1"
    by auto
  have "\<exists>s'. for_each xs body s1 = Some s' \<and> P s'"
    by (rule Cons.IH) (use Cons.prems(1) s1 in auto)
  with s1 show ?case by simp
qed

lemma for_each_collect:
  "(\<And>x. x \<in> set xs \<Longrightarrow> f x = Some (g x)) \<Longrightarrow>
   for_each xs (\<lambda>acc x. Option.bind (f x) (\<lambda>v. Some (acc @ [v]))) acc = Some (acc @ map g xs)"
  by (induction xs arbitrary: acc) auto

lemma for_each_append_alerts:
  assumes "\<And>s x. x \<in> set xs \<Longrightarrow> \<exists>new. body s x = Some (s\<lparr>alerts := alerts s @ new\<rparr>) \<and> list_all P new \<and> length new \<le> n"
  shows "\<exists>new. for_each xs body s = Some (s\<lparr>alerts := alerts s @ new\<rparr>) \<and> list_all P new \<and> length new \<le> n * length xs"
  using assms
proof (induction xs arbitrary: s)
  case Nil
  show ?case by simp
next
  case (Cons x xs)
  from Cons.prems [of x s] obtain n1 where n1: "body s x = Some (s\<lparr>alerts := alerts s @ n1\<rparr>)"
    "list_all P n1" "length n1 \<le> n" by auto
  have "\<exists>new. for_each xs body (s\<lparr>alerts := alerts s @ n1\<rparr>)
      = Some ((s\<lparr>alerts := alerts s @ n1\<rparr>)\<lparr>alerts := alerts (s\<lparr>alerts := alerts s @ n1\<rparr>) @ new\<rparr>)
      \<and> list_all P new \<and> length new \<le> n * length xs"
    by (rule Cons.IH) (use Cons.prems in auto)
  then obtain n2 where n2: "for_each xs body (s\<lparr>alerts := alerts s @ n1\<rparr>)
      = Some (s\<lparr>alerts := alerts s @ n1 @ n2\<rparr>)" "list_all P n2" "length n2 \<le> n * length xs"
    by auto
  show ?case
    by (rule exI [of _ "n1 @ n2"]) (use n1 n2 in simp)
qed


lemma alerts_append_eq [simp]:
  "(self\<lparr>alerts := alerts self @ xs\<rparr> = self\<lparr>alerts := alerts self @ ys\<rparr>) = (xs = ys)"
  by (cases self) simp

lemma alerts_append_self [simp]:
  "(self = self\<lparr>alerts := alerts self @ ys\<rparr>) = (ys = [])"
  by (cases self) simp

subsection \<open>Evaluation on the example ledgers\<close>

lemmas ordinal_eval =
  date_le_def date_lt_def toordinal_eval days_before_year_def days_before_month_def is_leap_def




subsection \<open>The spending limit rule, limit by limit\<close>

lemma check_spending_limit_cases:
  "(let spent = limit_current_spent (current_date self) db limit;
        cap = sl_monthly_limit limit;
        pct = (if cap > 0 then spent / cap * 100 else 0)
    in \<exists>new. check_spending_limit now db self limit = Some (self\<lparr>alerts := alerts self @ new\<rparr>)
     \<and> (if spent > cap
         then \<exists>a. new = [a] \<and> alert_type a = SPENDING_LIMIT_EXCEEDED \<and> priority a = HIGH
                \<and> map_of (data a) ''excess'' = Some (PyFloat (spent - cap))
                \<and> map_of (data a) ''percentage'' = Some (PyFloat pct)
         else if pct \<ge> 80
         then \<exists>a. new = [a] \<and> alert_type a = SPENDING_LIMIT_WARNING \<and> priority a = MEDIUM
                \<and> map_of (data a) ''remaining'' = Some (PyFloat (cap - spent))
                \<and> map_of (data a) ''percentage'' = Some (PyFloat pct)
         else new = []))"
  by (simp add: check_spending_limit_def Let_def truediv_def append_alert_def new_Alert_def)

subsection \<open>Projections and month keys\<close>

lemma get_historical_average_expenses_eq:
  "get_historical_average_expenses self db m =
     Some (let hist = historical_data self db EXPENSE m
           in if hist \<noteq> [] then sum_list hist / real (length hist) else 0)"
  by (simp add: get_historical_average_expenses_def Let_def truediv_def)

lemma get_historical_average_income_eq:
  "get_historical_average_income self db m =
     Some (let hist = historical_data self db INCOME m
           in if hist \<noteq> [] then sum_list hist / real (length hist) else 0)"
  by (simp add: get_historical_average_income_def Let_def truediv_def)

lemma savings_entry_eq:
  "savings_entry name y inc out =
     Some \<lparr>sc_month = name, sc_year = y, sc_projected_income = inc, sc_projected_expenses = out,
           sc_projected_savings = inc - out,
           sc_savings_rate = (if inc > 0 then (inc - out) / inc * 100 else 0)\<rparr>"
  by (simp add: savings_entry_def Let_def truediv_def)

lemma expense_projection_for_Some:
  "\<exists>v. expense_projection_for self db k =
        Some (month_key (year (add_months (fa_current_date self) k))
                        (month (add_months (fa_current_date self) k)), v)
     \<and> ep_year v = year (add_months (fa_current_date self) k)
     \<and> ep_month v = month (add_months (fa_current_date self) k)
     \<and> ep_month_name v = month_name (month (add_months (fa_current_date self) k))
     \<and> ep_recurring_expenses v = get_recurring_expenses_for_month db (ep_year v) (ep_month v)
     \<and> get_historical_average_expenses self db (ep_month v) = Some (ep_historical_average v)
     \<and> ep_projected_total v = combine_projections (ep_recurring_expenses v) (ep_historical_average v)"
  by (simp add: expense_projection_for_def Let_def get_historical_average_expenses_eq)

lemma income_projection_for_Some:
  "\<exists>v. income_projection_for self db k =
        Some (month_key (year (add_months (fa_current_date self) k))
                        (month (add_months (fa_current_date self) k)), v)
     \<and> ip_year v = year (add_months (fa_current_date self) k)
     \<and> ip_month v = month (add_months (fa_current_date self) k)
     \<and> ip_month_name v = month_name (month (add_months (fa_current_date self) k))
     \<and> ip_recurring_income v = get_recurring_income_for_month db (ip_year v) (ip_month v)
     \<and> get_historical_average_income self db (ip_month v) = Some (ip_historical_average v)
     \<and> ip_projected_total v = max (ip_recurring_income v) (ip_historical_average v)"
  by (simp add: income_projection_for_def Let_def get_historical_average_income_eq)

lemma month_add_months: "month (add_months d k) = ((month d - 1) mod 12 + k) mod 12 + 1"
  by (simp add: add_months_def Let_def mod_add_left_eq)

lemma add_months_chronological:
  "year (add_months d k) * 12 + month (add_months d k) = year d * 12 + month d + k"
  by (simp add: add_months_def Let_def algebra_simps) 

lemma fmt_02d_months:
  "0 \<le> b \<Longrightarrow> b < 12 \<Longrightarrow>
     fmt_02d (b + 1) = [''000000000111'' ! nat b, ''123456789012'' ! nat b]"
proof -
  assume "0 \<le> b" "b < 12"
  then have "b \<in> {0,1,2,3,4,5,6,7,8,9,10,11}" by simp arith
  then show ?thesis
    by (elim insertE emptyE) (simp_all add: fmt_02d_def str_int_def)
qed

lemma month_key_neq:
  assumes "0 \<le> a" "a < 12" "0 \<le> b" "b < 12" "a \<noteq> b"
  shows "month_key y (a + 1) \<noteq> month_key y' (b + 1)"
proof -
  have a: "a \<in> {0,1,2,3,4,5,6,7,8,9,10,11}" using assms by simp arith
  have b: "b \<in> {0,1,2,3,4,5,6,7,8,9,10,11}" using assms by simp arith
  have la: "length (fmt_02d (a + 1)) = 2" using assms by (simp add: fmt_02d_months)
  have lb: "length (fmt_02d (b + 1)) = 2" using assms by (simp add: fmt_02d_months)
  have ne: "fmt_02d (a + 1) \<noteq> fmt_02d (b + 1)"
  proof
    assume e: "fmt_02d (a + 1) = fmt_02d (b + 1)"
    have inj: "\<And>m. 0 \<le> m \<Longrightarrow> m < 12 \<Longrightarrow>
       m = int (of_char (fmt_02d (m + 1) ! 0) - 48) * 10 + int (of_char (fmt_02d (m + 1) ! 1) - 48) - 1"
    proof -
      fix m :: int assume "0 \<le> m" "m < 12"
      then have "m \<in> {0,1,2,3,4,5,6,7,8,9,10,11}" by simp arith
      then show "m = int (of_char (fmt_02d (m + 1) ! 0) - 48) * 10 + int (of_char (fmt_02d (m + 1) ! 1) - 48) - 1"
        by (elim insertE emptyE) (simp_all add: fmt_02d_def str_int_def)
    qed
    from inj [of a] inj [of b] e assms show False by simp
  qed
  have "str_int y @ ''-'' @ fmt_02d (a + 1) \<noteq> str_int y' @ ''-'' @ fmt_02d (b + 1)"
  proof
    assume "str_int y @ ''-'' @ fmt_02d (a + 1) = str_int y' @ ''-'' @ fmt_02d (b + 1)"
    then have "(str_int y @ ''-'') @ fmt_02d (a + 1) = (str_int y' @ ''-'') @ fmt_02d (b + 1)"
      by simp
    with la lb have "fmt_02d (a + 1) = fmt_02d (b + 1)"
      by (metis append_eq_append_conv)
    with ne show False by simp
  qed
  then show ?thesis by (simp add: month_key_def)
qed

lemma target_keys_distinct:
  fixes d :: date
  assumes "i \<in> {1, 2, 3}" "j \<in> {1, 2, 3}" "i \<noteq> j"
  shows "month_key (year (add_months d i)) (month (add_months d i))
       \<noteq> month_key (year (add_months d j)) (month (add_months d j))"
proof -
  define b where "b = (month d - 1) mod 12"
  have b: "0 \<le> b" "b < 12" by (simp_all add: b_def)
  have "\<not> 12 dvd (i - j)"
    using assms by auto
  then have "(b + i) mod 12 \<noteq> (b + j) mod 12"
    by (simp add: mod_eq_dvd_iff)
  moreover have "0 \<le> (b + i) mod 12" "(b + i) mod 12 < 12" "0 \<le> (b + j) mod 12" "(b + j) mod 12 < 12"
    by simp_all
  ultimately show ?thesis
    unfolding month_add_months b_def [symmetric]
    by (intro month_key_neq) simp_all
qed

lemma dict_set_fresh: "k \<notin> fst ` set d \<Longrightarrow> dict_set d k v = d @ [(k, v)]"
  by (simp add: dict_set_def)

lemma upto_1_3: "[1..3] = [1, 2, (3::int)]"
  by (simp add: upto_rec1)

lemma upto_1_1: "[1..1] = [1::int]"
  by simp

lemma project_future_expenses_3:
  "\<exists>v1 v2 v3. project_future_expenses self db 3 =
       Some [(month_key (year (add_months (fa_current_date self) 1)) (month (add_months (fa_current_date self) 1)), v1),
             (month_key (year (add_months (fa_current_date self) 2)) (month (add_months (fa_current_date self) 2)), v2),
             (month_key (year (add_months (fa_current_date self) 3)) (month (add_months (fa_current_date self) 3)), v3)]
     \<and> expense_projection_for self db 1 = Some (month_key (year (add_months (fa_current_date self) 1)) (month (add_months (fa_current_date self) 1)), v1)
     \<and> expense_projection_for self db 2 = Some (month_key (year (add_months (fa_current_date self) 2)) (month (add_months (fa_current_date self) 2)), v2)
     \<and> expense_projection_for self db 3 = Some (month_key (year (add_months (fa_current_date self) 3)) (month (add_months (fa_current_date self) 3)), v3)"
proof -
  let ?k = "\<lambda>i. month_key (year (add_months (fa_current_date self) i)) (month (add_months (fa_current_date self) i))"
  from expense_projection_for_Some [of self db 1] obtain v1 where v1: "expense_projection_for self db 1 = Some (?k 1, v1)" by blast
  from expense_projection_for_Some [of self db 2] obtain v2 where v2: "expense_projection_for self db 2 = Some (?k 2, v2)" by blast
  from expense_projection_for_Some [of self db 3] obtain v3 where v3: "expense_projection_for self db 3 = Some (?k 3, v3)" by blast
  have d: "?k 1 \<noteq> ?k 2" "?k 1 \<noteq> ?k 3" "?k 2 \<noteq> ?k 3" "?k 2 \<noteq> ?k 1" "?k 3 \<noteq> ?k 1" "?k 3 \<noteq> ?k 2"
    by (rule target_keys_distinct; simp)+
  have "project_future_expenses self db 3 = Some [(?k 1, v1), (?k 2, v2), (?k 3, v3)]"
    by (simp add: project_future_expenses_def upto_1_3 v1 v2 v3 dict_set_def d)
  with v1 v2 v3 show ?thesis by blast
qed

lemma project_future_income_3:
  "\<exists>v1 v2 v3. project_future_income self db 3 =
       Some [(month_key (year (add_months (fa_current_date self) 1)) (month (add_months (fa_current_date self) 1)), v1),
             (month_key (year (add_months (fa_current_date self) 2)) (month (add_months (fa_current_date self) 2)), v2),
             (month_key (year (add_months (fa_current_date self) 3)) (month (add_months (fa_current_date self) 3)), v3)]
     \<and> income_projection_for self db 1 = Some (month_key (year (add_months (fa_current_date self) 1)) (month (add_months (fa_current_date self) 1)), v1)
     \<and> income_projection_for self db 2 = Some (month_key (year (add_months (fa_current_date self) 2)) (month (add_months (fa_current_date self) 2)), v2)
     \<and> income_projection_for self db 3 = Some (month_key (year (add_months (fa_current_date self) 3)) (month (add_months (fa_current_date self) 3)), v3)"
proof -
  let ?k = "\<lambda>i. month_key (year (add_months (fa_current_date self) i)) (month (add_months (fa_current_date self) i))"
  from income_projection_for_Some [of self db 1] obtain v1 where v1: "income_projection_for self db 1 = Some (?k 1, v1)" by blast
  from income_projection_for_Some [of self db 2] obtain v2 where v2: "income_projection_for self db 2 = Some (?k 2, v2)" by blast
  from income_projection_for_Some [of self db 3] obtain v3 where v3: "income_projection_for self db 3 = Some (?k 3, v3)" by blast
  have d: "?k 1 \<noteq> ?k 2" "?k 1 \<noteq> ?k 3" "?k 2 \<noteq> ?k 3" "?k 2 \<noteq> ?k 1" "?k 3 \<noteq> ?k 1" "?k 3 \<noteq> ?k 2"
    by (rule target_keys_distinct; simp)+
  have "project_future_income self db 3 = Some [(?k 1, v1), (?k 2, v2), (?k 3, v3)]"
    by (simp add: project_future_income_def upto_1_3 v1 v2 v3 dict_set_def d)
  with v1 v2 v3 show ?thesis by blast
qed

lemma project_future_expenses_1:
  "\<exists>v1. project_future_expenses self db 1 =
       Some [(month_key (year (add_months (fa_current_date self) 1)) (month (add_months (fa_current_date self) 1)), v1)]
     \<and> expense_projection_for self db 1 = Some (month_key (year (add_months (fa_current_date self) 1)) (month (add_months (fa_current_date self) 1)), v1)"
proof -
  let ?k = "\<lambda>i. month_key (year (add_months (fa_current_date self) i)) (month (add_months (fa_current_date self) i))"
  from expense_projection_for_Some [of self db 1] obtain v1 where v1: "expense_projection_for self db 1 = Some (?k 1, v1)" by blast
  have "project_future_expenses self db 1 = Some [(?k 1, v1)]"
    by (simp add: project_future_expenses_def v1 dict_set_def)
  with v1 show ?thesis by blast
qed

lemma project_future_income_1:
  "\<exists>v1. project_future_income self db 1 =
       Some [(month_key (year (add_months (fa_current_date self) 1)) (month (add_months (fa_current_date self) 1)), v1)]
     \<and> income_projection_for self db 1 = Some (month_key (year (add_months (fa_current_date self) 1)) (month (add_months (fa_current_date self) 1)), v1)"
proof -
  let ?k = "\<lambda>i. month_key (year (add_months (fa_current_date self) i)) (month (add_months (fa_current_date self) i))"
  from income_projection_for_Some [of self db 1] obtain v1 where v1: "income_projection_for self db 1 = Some (?k 1, v1)" by blast
  have "project_future_income self db 1 = Some [(?k 1, v1)]"
    by (simp add: project_future_income_def v1 dict_set_def)
  with v1 show ?thesis by blast
qed

lemma calculate_savings_capacity_3:
  "\<exists>x1 x2 x3 i1 i2 i3 k1 k2 k3.
     expense_projection_for self db 1 = Some (k1, x1) \<and> income_projection_for self db 1 = Some (k1, i1)
   \<and> expense_projection_for self db 2 = Some (k2, x2) \<and> income_projection_for self db 2 = Some (k2, i2)
   \<and> expense_projection_for self db 3 = Some (k3, x3) \<and> income_projection_for self db 3 = Some (k3, i3)
   \<and> calculate_savings_capacity self db 3 =
       Some [(k1, the (savings_entry (ep_month_name x1) (ep_year x1) (ip_projected_total i1) (ep_projected_total x1))),
             (k2, the (savings_entry (ep_month_name x2) (ep_year x2) (ip_projected_total i2) (ep_projected_total x2))),
             (k3, the (savings_entry (ep_month_name x3) (ep_year x3) (ip_projected_total i3) (ep_projected_total x3)))]"
proof -
  let ?k = "\<lambda>i. month_key (year (add_months (fa_current_date self) i)) (month (add_months (fa_current_date self) i))"
  from project_future_expenses_3 [of self db] obtain x1 x2 x3 where
    x: "project_future_expenses self db 3 = Some [(?k 1, x1), (?k 2, x2), (?k 3, x3)]"
       "expense_projection_for self db 1 = Some (?k 1, x1)"
       "expense_projection_for self db 2 = Some (?k 2, x2)"
       "expense_projection_for self db 3 = Some (?k 3, x3)" by blast
  from project_future_income_3 [of self db] obtain i1 i2 i3 where
    i: "project_future_income self db 3 = Some [(?k 1, i1), (?k 2, i2), (?k 3, i3)]"
       "income_projection_for self db 1 = Some (?k 1, i1)"
       "income_projection_for self db 2 = Some (?k 2, i2)"
       "income_projection_for self db 3 = Some (?k 3, i3)" by blast
  have d: "?k 1 \<noteq> ?k 2" "?k 1 \<noteq> ?k 3" "?k 2 \<noteq> ?k 3" "?k 2 \<noteq> ?k 1" "?k 3 \<noteq> ?k 1" "?k 3 \<noteq> ?k 2"
    by (rule target_keys_distinct; simp)+
  have "calculate_savings_capacity self db 3 =
       Some [(?k 1, the (savings_entry (ep_month_name x1) (ep_year x1) (ip_projected_total i1) (ep_projected_total x1))),
             (?k 2, the (savings_entry (ep_month_name x2) (ep_year x2) (ip_projected_total i2) (ep_projected_total x2))),
             (?k 3, the (savings_entry (ep_month_name x3) (ep_year x3) (ip_projected_total i3) (ep_projected_total x3)))]"
    by (simp add: calculate_savings_capacity_def x(1) i(1) dict_get_def d savings_entry_eq dict_set_def)
  with x i show ?thesis by blast
qed

lemma calculate_savings_capacity_1:
  "\<exists>x1 i1 k1.
     expense_projection_for self db 1 = Some (k1, x1) \<and> income_projection_for self db 1 = Some (k1, i1)
   \<and> calculate_savings_capacity self db 1 =
       Some [(k1, the (savings_entry (ep_month_name x1) (ep_year x1) (ip_projected_total i1) (ep_projected_total x1)))]"
proof -
  let ?k = "\<lambda>i. month_key (year (add_months (fa_current_date self) i)) (month (add_months (fa_current_date self) i))"
  from project_future_expenses_1 [of self db] obtain x1 where
    x: "project_future_expenses self db 1 = Some [(?k 1, x1)]"
       "expense_projection_for self db 1 = Some (?k 1, x1)" by blast
  from project_future_income_1 [of self db] obtain i1 where
    i: "project_future_income self db 1 = Some [(?k 1, i1)]"
       "income_projection_for self db 1 = Some (?k 1, i1)" by blast
  have "calculate_savings_capacity self db 1 =
       Some [(?k 1, the (savings_entry (ep_month_name x1) (ep_year x1) (ip_projected_total i1) (ep_projected_total x1)))]"
    by (simp add: calculate_savings_capacity_def x(1) i(1) dict_get_def savings_entry_eq dict_set_def)
  with x i show ?thesis by blast
qed

lemma calculate_savings_capacity_3_length:
  "\<exists>sc. calculate_savings_capacity self db 3 = Some sc \<and> length sc = 3"
  using calculate_savings_capacity_3 [of self db] by auto

subsection \<open>The goal functions in closed form\<close>

lemma calculate_total_months_pos: "calculate_total_months goal \<noteq> 0"
  by (simp add: calculate_total_months_def Let_def max_def)

lemma goal_progress_of_eq:
  "goal_progress_of cur goal =
    (let days_remaining = days_between (goal_target_date goal) cur;
         months_remaining = max 0 (real_of_int days_remaining / 30.44);
         remaining_amount = goal_target_amount goal - goal_current_amount goal
     in Some \<lparr>gp_id = goal_id goal, gp_name = goal_name goal,
           gp_description = goal_description goal,
           gp_target_amount = goal_target_amount goal,
           gp_current_amount = goal_current_amount goal,
           gp_target_date = isoformat (goal_target_date goal),
           gp_progress_percentage = (if goal_target_amount goal > 0
              then goal_current_amount goal / goal_target_amount goal * 100 else 0),
           gp_remaining_amount = remaining_amount,
           gp_days_remaining = days_remaining,
           gp_months_remaining = months_remaining,
           gp_monthly_needed = (if months_remaining > 0 then remaining_amount / months_remaining
              else remaining_amount)\<rparr>)"
  by (simp add: goal_progress_of_def Let_def truediv_def)

lemma analyze_goal_eq:
  "\<exists>sc. calculate_savings_capacity self db 3 = Some sc \<and> length sc = 3 \<and>
   analyze_goal self db goal =
    (let days_remaining = days_between (goal_target_date goal) (fa_current_date self);
         months_remaining = max 1 (real_of_int days_remaining / 30.44);
         amount_needed = goal_target_amount goal - goal_current_amount goal;
         avg_monthly_savings = sum_list (map (\<lambda>(k, s). sc_projected_savings s) sc) / 3
     in Some \<lparr>ga_id = goal_id goal, ga_name = goal_name goal,
              ga_description = goal_description goal,
              ga_target_amount = goal_target_amount goal,
              ga_current_amount = goal_current_amount goal,
              ga_amount_needed = amount_needed,
              ga_target_date = isoformat (goal_target_date goal),
              ga_days_remaining = days_remaining,
              ga_months_remaining = round1 months_remaining,
              ga_monthly_savings_needed = amount_needed / months_remaining,
              ga_progress_percentage = (if goal_target_amount goal > 0
                 then goal_current_amount goal / goal_target_amount goal * 100 else 0),
              ga_is_achievable = (amount_needed / months_remaining \<le> avg_monthly_savings),
              ga_avg_monthly_savings_capacity = avg_monthly_savings\<rparr>)"
proof -
  from calculate_savings_capacity_3_length [of self db] obtain sc where
    sc: "calculate_savings_capacity self db 3 = Some sc" "length sc = 3" by blast
  have m: "max 1 (real_of_int (days_between (goal_target_date goal) (fa_current_date self)) / 30.44) > 0"
    by (simp add: max_def)
  have ne: "sc \<noteq> []" using sc(2) by auto
  show ?thesis
    apply (rule exI [of _ sc])
    using m ne
    apply (simp add: sc analyze_goal_def Let_def truediv_def)
    done
qed

lemma check_goal_eq:
  "check_goal now self goal =
    (let days_remaining = days_between (goal_target_date goal) (current_date self);
         months_remaining = max 0 (real_of_int days_remaining / 30.44);
         progress_percentage = (if goal_target_amount goal > 0
            then goal_current_amount goal / goal_target_amount goal * 100 else 0);
         actual_progress = (if goal_target_amount goal > 0
            then goal_current_amount goal / goal_target_amount goal else 0);
         ideal_progress = 1 - months_remaining / calculate_total_months goal;
         monthly_needed = (goal_target_amount goal - goal_current_amount goal) / months_remaining
     in Some (self\<lparr>alerts := alerts self
          @ (if 0 < days_remaining \<and> days_remaining \<le> 30 \<and> progress_percentage < 90
             then [new_Alert now GOAL_DEADLINE_APPROACHING HIGH
                        [PyStr (goal_name goal)]
                        [PyStr (goal_name goal), PyInt days_remaining, PyFloat progress_percentage]
                        [(''goal_id'', PyInt (goal_id goal)),
                         (''goal_name'', PyStr (goal_name goal)),
                         (''target_amount'', PyFloat (goal_target_amount goal)),
                         (''current_amount'', PyFloat (goal_current_amount goal)),
                         (''progress_percentage'', PyFloat progress_percentage),
                         (''days_remaining'', PyInt days_remaining)]
                        ''/goals'']
             else [])
          @ (if months_remaining > 0 \<and> actual_progress < ideal_progress - 0.1
             then [new_Alert now GOAL_BEHIND_SCHEDULE MEDIUM
                 [PyStr (goal_name goal)]
                 [PyStr (goal_name goal), PyFloat monthly_needed]
                 [(''goal_id'', PyInt (goal_id goal)),
                  (''goal_name'', PyStr (goal_name goal)),
                  (''ideal_progress'', PyFloat (ideal_progress * 100)),
                  (''actual_progress'', PyFloat (actual_progress * 100)),
                  (''monthly_needed'', PyFloat monthly_needed),
                  (''months_remaining'', PyFloat months_remaining)]
                 ''/goals'']
             else [])\<rparr>))"
proof -
  define d where "d = days_between (goal_target_date goal) (current_date self)"
  define m where "m = max 0 (real_of_int d / 30.44)"
  define tm where "tm = calculate_total_months goal"
  define tgt where "tgt = goal_target_amount goal"
  define q where "q = goal_current_amount goal / tgt"
  have tm: "tm \<noteq> 0" by (simp add: tm_def calculate_total_months_pos)
  have t1: "truediv m tm = Some (m / tm)" using tm by (simp add: truediv_def)
  have t2: "0 < tgt \<Longrightarrow> truediv (goal_current_amount goal) tgt = Some q"
    by (simp add: truediv_def q_def)
  have t3: "0 < m \<Longrightarrow> truediv (tgt - goal_current_amount goal) m = Some ((tgt - goal_current_amount goal) / m)"
    by (simp add: truediv_def)
  show ?thesis
    unfolding check_goal_def Let_def append_alert_def
    unfolding d_def [symmetric]
    unfolding m_def [symmetric] tm_def [symmetric] tgt_def [symmetric]
    by (cases "0 < d \<and> d \<le> 30"; cases "0 < tgt"; cases "0 < m"; cases "q * 100 < 90";
        cases "q < 1 - m / tm - 0.1"; cases "0 < 1 - m / tm - 0.1";
        simp add: t1 t2 t3 q_def [symmetric] del: mult_less_cancel_right divide_less_eq_numeral1 less_divide_eq_numeral1)
qed

lemma days_jan15_feb4: "days_between feb4 jan15 = 20"
  by (simp add: days_between_def feb4_def jan15_def ordinal_eval)


lemma total_months_trip: "calculate_total_months (trip t c feb4) = 300 / 30.44"
  by (simp add: calculate_total_months_def trip_def days_between_def feb4_def ordinal_eval)

subsection \<open>Values of a dictionary built in a loop\<close>




lemma feb_key: "month_key 2025 2 = ''2025-02''"
  by (simp add: month_key_def str_int_def fmt_02d_def)

lemma jan15_plus_1: "add_months jan15 1 = \<lparr>year = 2025, month = 2, day = 15\<rparr>"
  by (simp add: add_months_def jan15_def days_in_month_def is_leap_def)




lemma fa_jan15: "fa_current_date (new_FinancialAnalyzer jan15) = jan15"
  by (simp add: new_FinancialAnalyzer_def)





subsection \<open>What each rule appends\<close>

lemma balance_loop_3:
  "balance_loop now s [(k1, e1), (k2, e2), (k3, e3)]
     = s\<lparr>alerts := alerts s @ first_deficit now e1 e2 e3\<rparr>"
  by (simp add: first_deficit_def append_alert_def)

lemma check_spending_limits_out:
  "\<exists>new. check_spending_limits now db s = Some (s\<lparr>alerts := alerts s @ new\<rparr>)
     \<and> list_all other_rule_alert new"
proof -
  have step: "\<exists>new. check_spending_limit now db s' x = Some (s'\<lparr>alerts := alerts s' @ new\<rparr>)
      \<and> list_all other_rule_alert new \<and> length new \<le> 1" for s' x
    using check_spending_limit_cases [of s' db x now]
    by (auto simp: Let_def other_rule_alert_def split: if_splits)
  from for_each_append_alerts [where body = "check_spending_limit now db" and P = other_rule_alert and n = 1, OF step]
  show ?thesis
    unfolding check_spending_limits_def Let_def by blast
qed

lemma check_goals_progress_out:
  "\<exists>new. check_goals_progress now db s = Some (s\<lparr>alerts := alerts s @ new\<rparr>)
     \<and> list_all other_rule_alert new"
proof -
  have step: "\<exists>new. check_goal now s' x = Some (s'\<lparr>alerts := alerts s' @ new\<rparr>)
      \<and> list_all other_rule_alert new \<and> length new \<le> 2" for s' x
    by (simp add: check_goal_eq Let_def other_rule_alert_def new_Alert_def)
  from for_each_append_alerts [where body = "check_goal now" and P = other_rule_alert and n = 2, OF step]
  show ?thesis
    unfolding check_goals_progress_def by blast
qed

lemma check_unusual_spending_out:
  "\<exists>new. check_unusual_spending now db s = Some (s\<lparr>alerts := alerts s @ new\<rparr>)
     \<and> list_all other_rule_alert new"
  by (simp add: check_unusual_spending_def Let_def truediv_def append_alert_def
      other_rule_alert_def new_Alert_def)

lemma foldl_append_alert:
  "foldl (\<lambda>s r. append_alert s (f r)) s xs = s\<lparr>alerts := alerts s @ map f xs\<rparr>"
  by (induction xs arbitrary: s) (simp_all add: append_alert_def)

lemma check_bill_reminders_out:
  "\<exists>new. check_bill_reminders now db s = s\<lparr>alerts := alerts s @ new\<rparr>
     \<and> list_all other_rule_alert new"
  by (simp add: check_bill_reminders_def Let_def foldl_append_alert list_all_iff
      other_rule_alert_def bill_reminder_def new_Alert_def)

lemma check_positive_trends_out:
  "\<exists>new. check_positive_trends now db s = Some (s\<lparr>alerts := alerts s @ new\<rparr>)
     \<and> list_all other_rule_alert new"
  by (simp add: check_positive_trends_def Let_def truediv_def append_alert_def
      other_rule_alert_def new_Alert_def)

lemma check_balance_projections_out:
  "\<exists>k1 e1 k2 e2 k3 e3 x1 x2 x3 i1 i2 i3.
      calculate_savings_capacity (new_FinancialAnalyzer today) db 3 = Some [(k1, e1), (k2, e2), (k3, e3)]
    \<and> expense_projection_for (new_FinancialAnalyzer today) db 1 = Some (k1, x1)
    \<and> income_projection_for (new_FinancialAnalyzer today) db 1 = Some (k1, i1)
    \<and> expense_projection_for (new_FinancialAnalyzer today) db 2 = Some (k2, x2)
    \<and> income_projection_for (new_FinancialAnalyzer today) db 2 = Some (k2, i2)
    \<and> expense_projection_for (new_FinancialAnalyzer today) db 3 = Some (k3, x3)
    \<and> income_projection_for (new_FinancialAnalyzer today) db 3 = Some (k3, i3)
    \<and> savings_entry (ep_month_name x1) (ep_year x1) (ip_projected_total i1) (ep_projected_total x1) = Some e1
    \<and> savings_entry (ep_month_name x2) (ep_year x2) (ip_projected_total i2) (ep_projected_total x2) = Some e2
    \<and> savings_entry (ep_month_name x3) (ep_year x3) (ip_projected_total i3) (ep_projected_total x3) = Some e3
    \<and> (\<forall>s. check_balance_projections today now db s
          = Some (s\<lparr>alerts := alerts s @ first_deficit now e1 e2 e3\<rparr>))"
proof -
  from calculate_savings_capacity_3 [of "new_FinancialAnalyzer today" db]
  obtain x1 x2 x3 i1 i2 i3 k1 k2 k3 where
    p: "expense_projection_for (new_FinancialAnalyzer today) db 1 = Some (k1, x1)"
       "income_projection_for (new_FinancialAnalyzer today) db 1 = Some (k1, i1)"
       "expense_projection_for (new_FinancialAnalyzer today) db 2 = Some (k2, x2)"
       "income_projection_for (new_FinancialAnalyzer today) db 2 = Some (k2, i2)"
       "expense_projection_for (new_FinancialAnalyzer today) db 3 = Some (k3, x3)"
       "income_projection_for (new_FinancialAnalyzer today) db 3 = Some (k3, i3)"
    and c: "calculate_savings_capacity (new_FinancialAnalyzer today) db 3 =
       Some [(k1, the (savings_entry (ep_month_name x1) (ep_year x1) (ip_projected_total i1) (ep_projected_total x1))),
             (k2, the (savings_entry (ep_month_name x2) (ep_year x2) (ip_projected_total i2) (ep_projected_total x2))),
             (k3, the (savings_entry (ep_month_name x3) (ep_year x3) (ip_projected_total i3) (ep_projected_total x3)))]"
    by blast
  define e1 where "e1 = the (savings_entry (ep_month_name x1) (ep_year x1) (ip_projected_total i1) (ep_projected_total x1))"
  define e2 where "e2 = the (savings_entry (ep_month_name x2) (ep_year x2) (ip_projected_total i2) (ep_projected_total x2))"
  define e3 where "e3 = the (savings_entry (ep_month_name x3) (ep_year x3) (ip_projected_total i3) (ep_projected_total x3))"
  have e: "savings_entry (ep_month_name x1) (ep_year x1) (ip_projected_total i1) (ep_projected_total x1) = Some e1"
      "savings_entry (ep_month_name x2) (ep_year x2) (ip_projected_total i2) (ep_projected_total x2) = Some e2"
      "savings_entry (ep_month_name x3) (ep_year x3) (ip_projected_total i3) (ep_projected_total x3) = Some e3"
    by (simp_all add: e1_def e2_def e3_def savings_entry_eq)
  have c': "calculate_savings_capacity (new_FinancialAnalyzer today) db 3 = Some [(k1, e1), (k2, e2), (k3, e3)]"
    using c by (simp add: e1_def e2_def e3_def)
  have "\<forall>s. check_balance_projections today now db s
          = Some (s\<lparr>alerts := alerts s @ first_deficit now e1 e2 e3\<rparr>)"
    by (simp add: check_balance_projections_def c' balance_loop_3 del: balance_loop.simps)
  with p e c' show ?thesis by blast
qed

lemma generate_all_alerts_shape:
  assumes b: "\<forall>s. check_balance_projections today now db s = Some (s\<lparr>alerts := alerts s @ mid\<rparr>)"
  shows "\<exists>pre post. generate_all_alerts today now db self = Some (self\<lparr>alerts := pre @ mid @ post\<rparr>)
     \<and> list_all other_rule_alert pre \<and> list_all other_rule_alert post"
proof -
  define s0 where "s0 = self\<lparr>alerts := []\<rparr>"
  from check_spending_limits_out [of now db s0] obtain n1 where
    n1: "check_spending_limits now db s0 = Some (self\<lparr>alerts := n1\<rparr>)" "list_all other_rule_alert n1"
    by (auto simp: s0_def)
  from check_goals_progress_out [of now db "self\<lparr>alerts := n1\<rparr>"] obtain n2 where
    n2: "check_goals_progress now db (self\<lparr>alerts := n1\<rparr>) = Some (self\<lparr>alerts := n1 @ n2\<rparr>)"
        "list_all other_rule_alert n2"
    by auto
  from b have n3: "check_balance_projections today now db (self\<lparr>alerts := n1 @ n2\<rparr>)
      = Some (self\<lparr>alerts := n1 @ n2 @ mid\<rparr>)"
    by simp
  from check_unusual_spending_out [of now db "self\<lparr>alerts := n1 @ n2 @ mid\<rparr>"] obtain n4 where
    n4: "check_unusual_spending now db (self\<lparr>alerts := n1 @ n2 @ mid\<rparr>)
           = Some (self\<lparr>alerts := n1 @ n2 @ mid @ n4\<rparr>)"
        "list_all other_rule_alert n4"
    by auto
  from check_bill_reminders_out [of now db "self\<lparr>alerts := n1 @ n2 @ mid @ n4\<rparr>"] obtain n5 where
    n5: "check_bill_reminders now db (self\<lparr>alerts := n1 @ n2 @ mid @ n4\<rparr>)
           = self\<lparr>alerts := n1 @ n2 @ mid @ n4 @ n5\<rparr>"
        "list_all other_rule_alert n5"
    by auto
  from check_positive_trends_out [of now db "self\<lparr>alerts := n1 @ n2 @ mid @ n4 @ n5\<rparr>"] obtain n6 where
    n6: "check_positive_trends now db (self\<lparr>alerts := n1 @ n2 @ mid @ n4 @ n5\<rparr>)
           = Some (self\<lparr>alerts := n1 @ n2 @ mid @ n4 @ n5 @ n6\<rparr>)"
        "list_all other_rule_alert n6"
    by auto
  have "generate_all_alerts today now db self = Some (self\<lparr>alerts := (n1 @ n2) @ mid @ (n4 @ n5 @ n6)\<rparr>)"
    by (simp add: generate_all_alerts_def s0_def [symmetric] n1 n2 n3 n4 n5 n6)
  moreover have "list_all other_rule_alert (n1 @ n2)" "list_all other_rule_alert (n4 @ n5 @ n6)"
    using n1 n2 n4 n5 n6 by simp_all
  ultimately show ?thesis by blast
qed

lemma jan15_plus_2: "add_months jan15 2 = \<lparr>year = 2025, month = 3, day = 15\<rparr>"
  by (simp add: add_months_def jan15_def days_in_month_def is_leap_def)

lemma jan15_plus_3: "add_months jan15 3 = \<lparr>year = 2025, month = 4, day = 15\<rparr>"
  by (simp add: add_months_def jan15_def days_in_month_def is_leap_def)

lemma later_keys: "month_key 2025 3 = ''2025-03''" "month_key 2025 4 = ''2025-04''"
  by (simp_all add: month_key_def str_int_def fmt_02d_def)

lemma deficit_ledger_recurring:
  "get_recurring_expenses_for_month deficit_ledger 2025 2 = 0"
  "get_recurring_expenses_for_month deficit_ledger 2025 3 = 1200"
  "get_recurring_expenses_for_month deficit_ledger 2025 4 = 500"
  "get_recurring_income_for_month deficit_ledger 2025 2 = 100"
  "get_recurring_income_for_month deficit_ledger 2025 3 = 100"
  "get_recurring_income_for_month deficit_ledger 2025 4 = 100"
  by (simp_all add: get_recurring_expenses_for_month_def get_recurring_income_for_month_def
      deficit_ledger_def insurance_def in_window_def should_occur_in_month_def ordinal_eval)


lemma deficit_ledger_history:
  "historical_data (new_FinancialAnalyzer jan15) deficit_ledger ty m = []"
  by (simp add: historical_data_def deficit_ledger_def sql_sum_def)

lemma deficit_ledger_by_category:
  "project_expenses_by_category deficit_ledger y m = [(''Food'', 0)]"
  by (simp add: project_expenses_by_category_def deficit_ledger_def sql_avg_def or_zero_def
      dict_set_def food_def)

lemma deficit_ledger_expense_projections:
  "expense_projection_for (new_FinancialAnalyzer jan15) deficit_ledger 1 =
     Some (''2025-02'', \<lparr>ep_year = 2025, ep_month = 2, ep_month_name = ''February'',
        ep_recurring_expenses = 0, ep_historical_average = 0, ep_projected_total = 0,
        ep_projected_by_category = [(''Food'', 0)]\<rparr>)"
  "expense_projection_for (new_FinancialAnalyzer jan15) deficit_ledger 2 =
     Some (''2025-03'', \<lparr>ep_year = 2025, ep_month = 3, ep_month_name = ''March'',
        ep_recurring_expenses = 1200, ep_historical_average = 0, ep_projected_total = 1200,
        ep_projected_by_category = [(''Food'', 0)]\<rparr>)"
  "expense_projection_for (new_FinancialAnalyzer jan15) deficit_ledger 3 =
     Some (''2025-04'', \<lparr>ep_year = 2025, ep_month = 4, ep_month_name = ''April'',
        ep_recurring_expenses = 500, ep_historical_average = 0, ep_projected_total = 500,
        ep_projected_by_category = [(''Food'', 0)]\<rparr>)"
  by (simp_all add: expense_projection_for_def Let_def get_historical_average_expenses_eq
      fa_jan15 jan15_plus_1 jan15_plus_2 jan15_plus_3 deficit_ledger_history feb_key later_keys
      deficit_ledger_recurring deficit_ledger_by_category combine_projections_def month_name_def)

lemma deficit_ledger_income_projections:
  "income_projection_for (new_FinancialAnalyzer jan15) deficit_ledger 1 =
     Some (''2025-02'', \<lparr>ip_year = 2025, ip_month = 2, ip_month_name = ''February'',
        ip_recurring_income = 100, ip_historical_average = 0, ip_projected_total = 100\<rparr>)"
  "income_projection_for (new_FinancialAnalyzer jan15) deficit_ledger 2 =
     Some (''2025-03'', \<lparr>ip_year = 2025, ip_month = 3, ip_month_name = ''March'',
        ip_recurring_income = 100, ip_historical_average = 0, ip_projected_total = 100\<rparr>)"
  "income_projection_for (new_FinancialAnalyzer jan15) deficit_ledger 3 =
     Some (''2025-04'', \<lparr>ip_year = 2025, ip_month = 4, ip_month_name = ''April'',
        ip_recurring_income = 100, ip_historical_average = 0, ip_projected_total = 100\<rparr>)"
  by (simp_all add: income_projection_for_def Let_def get_historical_average_income_eq
      fa_jan15 jan15_plus_1 jan15_plus_2 jan15_plus_3 deficit_ledger_history feb_key later_keys
      deficit_ledger_recurring month_name_def)

lemma deficit_ledger_savings:
  "calculate_savings_capacity (new_FinancialAnalyzer jan15) deficit_ledger 3 =
     Some [(''2025-02'', \<lparr>sc_month = ''February'', sc_year = 2025, sc_projected_income = 100,
              sc_projected_expenses = 0, sc_projected_savings = 100, sc_savings_rate = 100\<rparr>),
           (''2025-03'', march_deficit),
           (''2025-04'', \<lparr>sc_month = ''April'', sc_year = 2025, sc_projected_income = 100,
              sc_projected_expenses = 500, sc_projected_savings = - 400, sc_savings_rate = - 400\<rparr>)]"
  by (simp add: calculate_savings_capacity_def project_future_expenses_def
      project_future_income_def upto_1_3 deficit_ledger_expense_projections
      deficit_ledger_income_projections dict_set_def dict_get_def savings_entry_eq
      march_deficit_def)

lemma deficit_ledger_balance:
  "check_balance_projections jan15 now deficit_ledger s
     = Some (s\<lparr>alerts := alerts s @ [low_balance_alert now march_deficit]\<rparr>)"
  by (simp add: check_balance_projections_def deficit_ledger_savings append_alert_def)
     (simp add: march_deficit_def)

(*HELPERS*)

subsection \<open>The recurring schedule\<close>

text \<open>
  C7. For a recurring transaction of frequency \<open>yearly\<close>, \<open>_should_occur_in_month\<close> answers
  true for a target month exactly when the month of the start date is that month, whatever
  the year. Where such an item is the only recurring transaction and passes the window
  filter of \<open>_get_recurring_expenses_for_month\<close>, the month's recurring expenses are its
  amount in the start date's month and zero in every other month.
\<close>

theorem yearly_occurs_iff_start_month:
  "rt_frequency r = ''yearly'' \<Longrightarrow>
     (should_occur_in_month r y m \<longleftrightarrow> month (rt_start_date r) = m)
     \<and> (in_window r EXPENSE \<lparr>year = y, month = m, day = 1\<rparr> \<longrightarrow>
          get_recurring_expenses_for_month (db\<lparr>recurring_transactions := [r]\<rparr>) y m
            = (if month (rt_start_date r) = m then rt_amount r else 0))"
  by (simp add: should_occur_in_month_def get_recurring_expenses_for_month_def)

theorem yearly_occurs_iff_start_month_witness:
  "should_occur_in_month insurance 2025 3
   \<and> \<not> should_occur_in_month insurance 2025 4
   \<and> get_recurring_expenses_for_month (empty_ledger\<lparr>recurring_transactions := [insurance]\<rparr>) 2025 3 = 1200
   \<and> get_recurring_expenses_for_month (empty_ledger\<lparr>recurring_transactions := [insurance]\<rparr>) 2025 4 = 0"
proof -
  have y: "rt_frequency insurance = ''yearly''"
    by (simp add: insurance_def)
  have w3: "in_window insurance EXPENSE \<lparr>year = 2025, month = 3, day = 1\<rparr>"
    by (simp add: in_window_def insurance_def date_le_def toordinal_eval days_before_year_def
        days_before_month_def is_leap_def)
  have w4: "in_window insurance EXPENSE \<lparr>year = 2025, month = 4, day = 1\<rparr>"
    by (simp add: in_window_def insurance_def date_le_def toordinal_eval days_before_year_def
        days_before_month_def is_leap_def)
  have m: "month (rt_start_date insurance) = 3" "rt_amount insurance = 1200"
    by (simp_all add: insurance_def)
  from yearly_occurs_iff_start_month [OF y, of 2025 3 empty_ledger]
       yearly_occurs_iff_start_month [OF y, of 2025 4 empty_ledger] w3 w4 m
  show ?thesis by simp
qed

subsection \<open>Marking an alert as read\<close>

text \<open>
  C10. \<open>mark_alert_as_read\<close> returns for every integer index. An index outside
  \<open>[0, len(alerts))\<close> leaves the alert system as it is. An index inside it sets \<open>is_read\<close> of
  the alert at that index and changes no other field of it, no other alert, and neither the
  length of the list nor the current date.
\<close>

theorem mark_alert_as_read_frame:
  "\<exists>s'. mark_alert_as_read self i = Some s'
     \<and> current_date s' = current_date self
     \<and> length (alerts s') = length (alerts self)
     \<and> (\<not> (0 \<le> i \<and> i < int (length (alerts self))) \<longrightarrow> s' = self)
     \<and> (0 \<le> i \<and> i < int (length (alerts self)) \<longrightarrow>
          alerts s' ! nat i = (alerts self ! nat i)\<lparr>is_read := True\<rparr>)
     \<and> (\<forall>j < length (alerts self). int j \<noteq> i \<longrightarrow> alerts s' ! j = alerts self ! j)"
  by (auto simp: mark_alert_as_read_def getitem_in_range)

theorem mark_alert_as_read_frame_witness:
  "(\<exists>s'. mark_alert_as_read two_alerts 1 = Some s'
      \<and> alerts s' ! 1 = (alerts two_alerts ! 1)\<lparr>is_read := True\<rparr>
      \<and> alerts s' ! 0 = alerts two_alerts ! 0)
   \<and> mark_alert_as_read two_alerts 2 = Some two_alerts
   \<and> mark_alert_as_read two_alerts (- 1) = Some two_alerts"
proof -
  have n: "length (alerts two_alerts) = 2"
    by (simp add: two_alerts_def)
  from mark_alert_as_read_frame [of two_alerts 1] mark_alert_as_read_frame [of two_alerts 2]
       mark_alert_as_read_frame [of two_alerts "- 1"] n
  show ?thesis by auto
qed

subsection \<open>The spending limit monitor\<close>




subsection \<open>Progress of a goal without a positive target\<close>

text \<open>
  C8. For a goal whose target amount is zero or negative, each of the three operations that
  compute the goal's progress returns, and with progress zero: \<open>get_goals_progress\<close> and
  \<open>analyze_goals_progress\<close> report \<open>progress_percentage = 0\<close>, and every alert that
  \<open>_check_goals_progress\<close> appends for the goal carries \<open>0\<close> under \<open>progress_percentage\<close>
  or \<open>actual_progress\<close>, whichever of the two its payload has.
\<close>

theorem zero_target_progress:
  "goal_target_amount goal \<le> 0 \<Longrightarrow>
     (\<exists>g. goal_progress_of cur goal = Some g \<and> gp_progress_percentage g = 0)
   \<and> (\<exists>g. analyze_goal fa db goal = Some g \<and> ga_progress_percentage g = 0)
   \<and> (\<exists>new. check_goal now self goal = Some (self\<lparr>alerts := alerts self @ new\<rparr>)
         \<and> (\<forall>a \<in> set new.
               map_of (data a) ''progress_percentage'' \<in> {None, Some (PyFloat 0)}
             \<and> map_of (data a) ''actual_progress'' \<in> {None, Some (PyFloat 0)}))"
proof -
  assume z: "goal_target_amount goal \<le> 0"
  have a: "\<exists>g. goal_progress_of cur goal = Some g \<and> gp_progress_percentage g = 0"
    using z by (simp add: goal_progress_of_eq Let_def)
  from analyze_goal_eq [of fa db goal]
  have b: "\<exists>g. analyze_goal fa db goal = Some g \<and> ga_progress_percentage g = 0"
    using z by (auto simp: Let_def)
  have c: "\<exists>new. check_goal now self goal = Some (self\<lparr>alerts := alerts self @ new\<rparr>)
         \<and> (\<forall>a \<in> set new.
               map_of (data a) ''progress_percentage'' \<in> {None, Some (PyFloat 0)}
             \<and> map_of (data a) ''actual_progress'' \<in> {None, Some (PyFloat 0)})"
    using z by (auto simp: check_goal_eq Let_def new_Alert_def)
  from a b c show ?thesis by blast
qed

theorem zero_target_progress_witness:
  "(\<exists>g. goal_progress_of jan15 (trip 0 500 feb4) = Some g \<and> gp_progress_percentage g = 0)
   \<and> (\<exists>g. analyze_goal (new_FinancialAnalyzer jan15) empty_ledger (trip 0 500 feb4) = Some g
          \<and> ga_progress_percentage g = 0)
   \<and> (\<exists>a b. check_goal 0 fresh (trip 0 500 feb4) = Some (fresh\<lparr>alerts := [a, b]\<rparr>)
          \<and> alert_type a = GOAL_DEADLINE_APPROACHING
          \<and> map_of (data a) ''progress_percentage'' = Some (PyFloat 0)
          \<and> alert_type b = GOAL_BEHIND_SCHEDULE
          \<and> map_of (data b) ''actual_progress'' = Some (PyFloat 0))"
proof -
  have z: "goal_target_amount (trip 0 500 feb4) \<le> 0"
    by (simp add: trip_def)
  have e: "\<exists>a b. check_goal 0 fresh (trip 0 500 feb4) = Some (fresh\<lparr>alerts := [a, b]\<rparr>)
          \<and> alert_type a = GOAL_DEADLINE_APPROACHING
          \<and> map_of (data a) ''progress_percentage'' = Some (PyFloat 0)
          \<and> alert_type b = GOAL_BEHIND_SCHEDULE
          \<and> map_of (data b) ''actual_progress'' = Some (PyFloat 0)"
    by (simp add: check_goal_eq Let_def total_months_trip)
       (simp add: trip_def fresh_def days_jan15_feb4 new_Alert_def)
  from zero_target_progress [OF z, of jan15 "new_FinancialAnalyzer jan15" empty_ledger 0 fresh] e
  show ?thesis by blast
qed

subsection \<open>Months remaining and the monthly amount of a goal\<close>




subsection \<open>The blend of recurring amounts and historical averages\<close>




subsection \<open>The low balance projection\<close>

text \<open>
  C4. \<open>calculate_savings_capacity(3)\<close> yields the three months after the analyzer's date,
  in that order, which is chronological. \<open>_check_balance_projections\<close> appends the alert of
  the first of them whose projected savings are negative and nothing else, so at most one
  alert; a later deficit month is passed over. In the list of a \<open>generate_all_alerts\<close> pass that
  alert is the only one of type \<open>LOW_BALANCE_PROJECTION\<close>.
\<close>

theorem first_deficit_month_alert:
  "\<exists>k1 e1 k2 e2 k3 e3.
      calculate_savings_capacity (new_FinancialAnalyzer today) db 3
        = Some [(k1, e1), (k2, e2), (k3, e3)]
    \<and> sc_year e1 = year (add_months today 1) \<and> sc_month e1 = month_name (month (add_months today 1))
    \<and> sc_year e2 = year (add_months today 2) \<and> sc_month e2 = month_name (month (add_months today 2))
    \<and> sc_year e3 = year (add_months today 3) \<and> sc_month e3 = month_name (month (add_months today 3))
    \<and> (let new = (if sc_projected_savings e1 < 0 then [low_balance_alert now e1]
                   else if sc_projected_savings e2 < 0 then [low_balance_alert now e2]
                   else if sc_projected_savings e3 < 0 then [low_balance_alert now e3]
                   else [])
        in check_balance_projections today now db self = Some (self\<lparr>alerts := alerts self @ new\<rparr>)
         \<and> length new \<le> 1
         \<and> (\<exists>pre post. generate_all_alerts today now db self = Some (self\<lparr>alerts := pre @ new @ post\<rparr>)
               \<and> (\<forall>a \<in> set (pre @ post). alert_type a \<noteq> LOW_BALANCE_PROJECTION)))
    \<and> (\<forall>i. year (add_months today i) * 12 + month (add_months today i)
            = year today * 12 + month today + i)"
proof -
  let ?fa = "new_FinancialAnalyzer today"
  have fa: "fa_current_date ?fa = today" by (simp add: new_FinancialAnalyzer_def)
  from check_balance_projections_out [of today db now]
  obtain k1 e1 k2 e2 k3 e3 x1 x2 x3 i1 i2 i3 where
    c: "calculate_savings_capacity ?fa db 3 = Some [(k1, e1), (k2, e2), (k3, e3)]"
    and x1: "expense_projection_for ?fa db 1 = Some (k1, x1)"
    and i1: "income_projection_for ?fa db 1 = Some (k1, i1)"
    and x2: "expense_projection_for ?fa db 2 = Some (k2, x2)"
    and i2: "income_projection_for ?fa db 2 = Some (k2, i2)"
    and x3: "expense_projection_for ?fa db 3 = Some (k3, x3)"
    and i3: "income_projection_for ?fa db 3 = Some (k3, i3)"
    and e: "savings_entry (ep_month_name x1) (ep_year x1) (ip_projected_total i1) (ep_projected_total x1) = Some e1"
           "savings_entry (ep_month_name x2) (ep_year x2) (ip_projected_total i2) (ep_projected_total x2) = Some e2"
           "savings_entry (ep_month_name x3) (ep_year x3) (ip_projected_total i3) (ep_projected_total x3) = Some e3"
    and b: "\<forall>s. check_balance_projections today now db s
          = Some (s\<lparr>alerts := alerts s @ first_deficit now e1 e2 e3\<rparr>)"
    by (elim exE conjE) (rule that; assumption)
  note x = x1 x2 x3
  have y1: "ep_year x1 = year (add_months today 1)" "ep_month_name x1 = month_name (month (add_months today 1))"
    using expense_projection_for_Some [of ?fa db 1] x(1) by (auto simp: fa)
  have y2: "ep_year x2 = year (add_months today 2)" "ep_month_name x2 = month_name (month (add_months today 2))"
    using expense_projection_for_Some [of ?fa db 2] x(2) by (auto simp: fa)
  have y3: "ep_year x3 = year (add_months today 3)" "ep_month_name x3 = month_name (month (add_months today 3))"
    using expense_projection_for_Some [of ?fa db 3] x(3) by (auto simp: fa)
  have s1: "sc_year e1 = year (add_months today 1)" "sc_month e1 = month_name (month (add_months today 1))"
    using e(1) y1 by (auto simp: savings_entry_eq)
  have s2: "sc_year e2 = year (add_months today 2)" "sc_month e2 = month_name (month (add_months today 2))"
    using e(2) y2 by (auto simp: savings_entry_eq)
  have s3: "sc_year e3 = year (add_months today 3)" "sc_month e3 = month_name (month (add_months today 3))"
    using e(3) y3 by (auto simp: savings_entry_eq)
  from generate_all_alerts_shape [OF b, of self] obtain pre post where
    g: "generate_all_alerts today now db self = Some (self\<lparr>alerts := pre @ first_deficit now e1 e2 e3 @ post\<rparr>)"
    and o: "list_all other_rule_alert pre" "list_all other_rule_alert post"
    by blast
  have o': "\<forall>a \<in> set (pre @ post). alert_type a \<noteq> LOW_BALANCE_PROJECTION"
    using o by (auto simp: list_all_iff other_rule_alert_def)
  have l: "length (first_deficit now e1 e2 e3) \<le> 1"
    by (simp add: first_deficit_def)
  have chrono: "\<forall>i. year (add_months today i) * 12 + month (add_months today i)
            = year today * 12 + month today + i"
    by (simp add: add_months_chronological)
  have "check_balance_projections today now db self
          = Some (self\<lparr>alerts := alerts self @ first_deficit now e1 e2 e3\<rparr>)
     \<and> length (first_deficit now e1 e2 e3) \<le> 1
     \<and> (\<exists>pre post. generate_all_alerts today now db self
            = Some (self\<lparr>alerts := pre @ first_deficit now e1 e2 e3 @ post\<rparr>)
          \<and> (\<forall>a \<in> set (pre @ post). alert_type a \<noteq> LOW_BALANCE_PROJECTION))"
    using b g o' l by blast
  then have "let new = (if sc_projected_savings e1 < 0 then [low_balance_alert now e1]
                   else if sc_projected_savings e2 < 0 then [low_balance_alert now e2]
                   else if sc_projected_savings e3 < 0 then [low_balance_alert now e3]
                   else [])
        in check_balance_projections today now db self = Some (self\<lparr>alerts := alerts self @ new\<rparr>)
         \<and> length new \<le> 1
         \<and> (\<exists>pre post. generate_all_alerts today now db self = Some (self\<lparr>alerts := pre @ new @ post\<rparr>)
               \<and> (\<forall>a \<in> set (pre @ post). alert_type a \<noteq> LOW_BALANCE_PROJECTION))"
    unfolding Let_def first_deficit_def .
  with c s1 s2 s3 chrono show ?thesis by blast
qed

theorem first_deficit_month_alert_witness:
  "check_balance_projections jan15 0 deficit_ledger fresh
     = Some (fresh\<lparr>alerts := [low_balance_alert 0 march_deficit]\<rparr>)
   \<and> (\<exists>pre post. generate_all_alerts jan15 0 deficit_ledger fresh
         = Some (fresh\<lparr>alerts := pre @ [low_balance_alert 0 march_deficit] @ post\<rparr>))"
proof -
  from first_deficit_month_alert [of jan15 deficit_ledger 0 fresh]
  obtain k1 e1 k2 e2 k3 e3 where
    c: "calculate_savings_capacity (new_FinancialAnalyzer jan15) deficit_ledger 3
        = Some [(k1, e1), (k2, e2), (k3, e3)]"
    and n: "let new = (if sc_projected_savings e1 < 0 then [low_balance_alert 0 e1]
                   else if sc_projected_savings e2 < 0 then [low_balance_alert 0 e2]
                   else if sc_projected_savings e3 < 0 then [low_balance_alert 0 e3]
                   else [])
        in check_balance_projections jan15 0 deficit_ledger fresh = Some (fresh\<lparr>alerts := alerts fresh @ new\<rparr>)
         \<and> length new \<le> 1
         \<and> (\<exists>pre post. generate_all_alerts jan15 0 deficit_ledger fresh = Some (fresh\<lparr>alerts := pre @ new @ post\<rparr>)
               \<and> (\<forall>a \<in> set (pre @ post). alert_type a \<noteq> LOW_BALANCE_PROJECTION))"
    by blast
  from c have e: "sc_projected_savings e1 = 100" "e2 = march_deficit"
    by (auto simp: deficit_ledger_savings)
  have m: "sc_projected_savings march_deficit = - 1100" "alerts fresh = []"
    by (simp_all add: march_deficit_def fresh_def)
  from n show ?thesis
    unfolding Let_def e m by auto
qed

end
